theory Spec2Isabelle
  imports Complex_Main "HOL-Library.Multiset"
begin

section \<open>JavaScript values and built-ins used by the route handlers\<close>

text \<open>
  Both source files (\<^verbatim>\<open>src/server.js\<close> and \<^verbatim>\<open>src/unnamed/part_000\<close>) are Express
  applications whose route callbacks are written in the same words; they differ in the
  static city list of the autocomplete route, in the origin allowed for cross-origin
  requests and in the order of the top-level statements. A response is modelled by its
  status and its JSON body; headers are left out.

  Conventions of the embedding:
  \<^item> a JavaScript Number is an IEEE 754 double: a \<open>number\<close> is the exact rational value
    of a finite double, or an infinity, or NaN, and every addition and division rounds to
    the nearest double; the sign of a zero is dropped, as no response depends on it;
  \<^item> a JavaScript string is a \<open>string\<close>; \<^verbatim>\<open>String.prototype.toLowerCase\<close> follows the
    case tables of Unicode, which are not part of the model: the mapping of a non-empty
    string is a parameter, the field \<open>toLowerCase\<close> of the world a request meets;
  \<^item> a thrown exception or a rejected promise is the \<open>Inl\<close> branch of a sum;
  \<^item> a Date is its time value, an \<open>int\<close> of milliseconds since the epoch.
\<close>

datatype js_error = TypeError | ReferenceError | AxiosError | MongoError | ValidationError | AddressInUse

subsection \<open>String.prototype.includes, and lower case on ASCII strings\<close>

text \<open>
  On a string of ASCII characters \<^verbatim>\<open>toLowerCase\<close> maps the letters \<open>A\<close>..\<open>Z\<close> and leaves
  every other character alone. The concrete runs below, all on ASCII strings, use this
  function for the parameter.
\<close>

definition lower_char :: "char \<Rightarrow> char" where
  "lower_char c =
     (let n = (of_char c :: nat) in if 65 \<le> n \<and> n \<le> 90 then char_of (n + 32) else c)"

definition ascii_toLowerCase :: "string \<Rightarrow> string" where
  "ascii_toLowerCase s = map lower_char s"

fun startsWith :: "string \<Rightarrow> string \<Rightarrow> bool" where
  "startsWith s [] = True"
| "startsWith [] (p # ps) = False"
| "startsWith (c # cs) (p # ps) = (c = p \<and> startsWith cs ps)"

text \<open>\<open>includes_str s p\<close> is \<^verbatim>\<open>s.includes(p)\<close>: some position of \<open>s\<close> starts with \<open>p\<close>.\<close>

fun includes_str :: "string \<Rightarrow> string \<Rightarrow> bool" where
  "includes_str [] p = (p = [])"
| "includes_str (c # cs) p = (startsWith (c # cs) p \<or> includes_str cs p)"

subsection \<open>Decimal digits of a non-negative integer\<close>

definition digit_char :: "nat \<Rightarrow> char" where
  "digit_char d = char_of (48 + d)"

fun digits :: "nat \<Rightarrow> string" where
  "digits n = (if n < 10 then [digit_char n] else digits (n div 10) @ [digit_char (n mod 10)])"

declare digits.simps [simp del]

subsection \<open>Numbers: IEEE 754 doubles\<close>

datatype number = Finite rat | PosInfinity | NegInfinity | NaN

text \<open>
  \<open>double_of x\<close> is the double nearest to the rational \<open>x\<close>, a tie going to the even
  significand: with \<open>2^e \<le> \<bar>x\<bar> < 2^(e+1)\<close> and \<open>e\<close> not below \<open>-1022\<close> (the subnormal
  range), \<open>\<bar>x\<bar>\<close> is rounded to a multiple of \<open>2^(e-52)\<close>; a result of \<open>2^1024\<close> or more is
  an infinity. This is how \<^verbatim>\<open>JSON.parse\<close> reads a decimal number and how every
  arithmetic operation rounds its exact result.
\<close>

function bit_length :: "int \<Rightarrow> int" where
  "bit_length p = (if p \<le> 0 then 0 else 1 + bit_length (p div 2))"
  by auto
termination
  by (relation "measure nat") auto

declare bit_length.simps [simp del]

function pow2_pos :: "int \<Rightarrow> rat" where
  "pow2_pos e =
     (if e \<le> 0 then 1
      else let h = pow2_pos (e div 2) in if even e then h * h else 2 * h * h)"
  by auto
termination
  by (relation "measure nat") auto

declare pow2_pos.simps [simp del]

definition pow2 :: "int \<Rightarrow> rat" where
  "pow2 e = (if 0 \<le> e then pow2_pos e else 1 / pow2_pos (- e))"

definition binary_exponent :: "rat \<Rightarrow> int" where
  "binary_exponent a =
     (let (p, q) = quotient_of a;
          e = bit_length p - bit_length q
      in if a < pow2 e then e - 1 else e)"

definition round_half_even :: "rat \<Rightarrow> int" where
  "round_half_even y =
     (let f = \<lfloor>y\<rfloor>; d = y - of_int f
      in if d < 1 / 2 then f else if 1 / 2 < d then f + 1 else if even f then f else f + 1)"

definition double_of :: "rat \<Rightarrow> number" where
  "double_of x =
     (if x = 0 then Finite 0
      else
        let a = \<bar>x\<bar>;
            e = max (binary_exponent a) (- 1022);
            q = pow2 (e - 52);
            n = round_half_even (a / q)
        in if 1023 < e \<or> (e = 1023 \<and> 9007199254740992 \<le> n)
           then (if x < 0 then NegInfinity else PosInfinity)
           else Finite ((if x < 0 then - 1 else 1) * of_int n * q))"

text \<open>\<^verbatim>\<open>a + b\<close> on Numbers.\<close>

fun number_add :: "number \<Rightarrow> number \<Rightarrow> number" where
  "number_add (Finite a) (Finite b) = double_of (a + b)"
| "number_add NaN b = NaN"
| "number_add a NaN = NaN"
| "number_add PosInfinity NegInfinity = NaN"
| "number_add NegInfinity PosInfinity = NaN"
| "number_add PosInfinity b = PosInfinity"
| "number_add NegInfinity b = NegInfinity"
| "number_add a PosInfinity = PosInfinity"
| "number_add a NegInfinity = NegInfinity"

text \<open>
  \<^verbatim>\<open>a / xs.length\<close>: the divisor is the length of an array, a non-negative integer below
  \<open>2^32\<close> and so itself a double.
\<close>

fun divide_by_length :: "number \<Rightarrow> nat \<Rightarrow> number" where
  "divide_by_length (Finite a) n =
     (if n = 0 then (if a = 0 then NaN else if a < 0 then NegInfinity else PosInfinity)
      else double_of (a / of_nat n))"
| "divide_by_length PosInfinity n = PosInfinity"
| "divide_by_length NegInfinity n = NegInfinity"
| "divide_by_length NaN n = NaN"

subsection \<open>Math.round and Number.prototype.toFixed\<close>

text \<open>
  \<^verbatim>\<open>Math.round(x)\<close> is the integer closest to \<open>x\<close>, and of two equally close integers
  the one towards plus infinity: \<open>\<lfloor>x + 1/2\<rfloor>\<close>, taken of the exact value of the double (the
  result is a double again). Infinities and NaN are returned as they are.
\<close>

fun Math_round :: "number \<Rightarrow> number" where
  "Math_round (Finite x) = Finite (of_int \<lfloor>x + 1 / 2\<rfloor>)"
| "Math_round x = x"

text \<open>
  \<^verbatim>\<open>x.toFixed(f)\<close> after ECMA-262, on the exact value of the double: a minus sign for
  \<open>x < 0\<close> and then, for the magnitude, Number::toString at \<open>10^21\<close> and above, otherwise
  the integer \<open>n\<close> with \<open>n / 10^f\<close> closest to the magnitude (the larger one of two),
  written in decimal, padded with zeros to \<open>f + 1\<close> digits and split before the last
  \<open>f\<close> digits. Number::toString gives the exponent notation, which is left abstract:
  \<open>Exponential s x\<close> stands for the sign \<open>s\<close> followed by \<^verbatim>\<open>String(x)\<close>. A Number that is
  not finite gives its name.
\<close>

datatype fixed_string = Decimal string | Exponential string rat | NonFinite string

definition fixed_digits :: "nat \<Rightarrow> nat \<Rightarrow> string" where
  "fixed_digits n f =
     (let m = digits n;
          m = (if f \<noteq> 0 \<and> length m \<le> f then replicate (f + 1 - length m) CHR ''0'' @ m else m);
          k = length m
      in if f \<noteq> 0 then take (k - f) m @ ''.'' @ drop (k - f) m else m)"

fun toFixed :: "number \<Rightarrow> nat \<Rightarrow> fixed_string" where
  "toFixed (Finite x0) f =
     (let s = (if x0 < 0 then ''-'' else []);
          x = (if x0 < 0 then - x0 else x0)
      in if x \<ge> 10 ^ 21 then Exponential s x
         else Decimal (s @ fixed_digits (nat \<lfloor>x * 10 ^ f + 1 / 2\<rfloor>) f))"
| "toFixed PosInfinity f = NonFinite ''Infinity''"
| "toFixed NegInfinity f = NonFinite ''-Infinity''"
| "toFixed NaN f = NonFinite ''NaN''"

subsection \<open>Array.prototype.reduce without an initial value\<close>

text \<open>
  \<^verbatim>\<open>xs.reduce((a, b) => a + b)\<close> throws a TypeError on the empty array and otherwise
  folds from the left, starting with the first element; each addition rounds.
\<close>

fun reduce_add :: "number list \<Rightarrow> js_error + number" where
  "reduce_add [] = Inl TypeError"
| "reduce_add (x # xs) = Inr (foldl number_add x xs)"

text \<open>
  The mean as lines 123 to 125 compute it: the sum of \<^verbatim>\<open>reduce\<close> divided by the length.
  On decimal numbers as the provider writes them, each is first read as a double.
\<close>

definition number_mean :: "number list \<Rightarrow> number" where
  "number_mean xs =
     (case xs of
        [] \<Rightarrow> NaN
      | x # r \<Rightarrow> divide_by_length (foldl number_add x r) (length xs))"

definition double_mean :: "rat list \<Rightarrow> number" where
  "double_mean xs = number_mean (map double_of xs)"

subsection \<open>Ordinary objects used as dictionaries\<close>

text \<open>
  \<^verbatim>\<open>const grouped = {}\<close> is an ordinary object. Its own properties are kept in the order
  of their creation (an association list with distinct keys). A read \<^verbatim>\<open>grouped[k]\<close>
  finds an own property, or else a property inherited from \<^verbatim>\<open>Object.prototype\<close>
  (all of them functions or objects, hence truthy and without a \<^verbatim>\<open>temps\<close> field), or else
  \<^verbatim>\<open>undefined\<close>.
\<close>

definition objectPrototypeKeys :: "string list" where
  "objectPrototypeKeys =
     [''constructor'', ''__defineGetter__'', ''__defineSetter__'', ''hasOwnProperty'',
      ''__lookupGetter__'', ''__lookupSetter__'', ''isPrototypeOf'', ''propertyIsEnumerable'',
      ''toString'', ''valueOf'', ''__proto__'', ''toLocaleString'']"

datatype 'a property = Own 'a | Inherited | Undefined

definition get_property :: "(string \<times> 'a) list \<Rightarrow> string \<Rightarrow> 'a property" where
  "get_property obj k =
     (case map_of obj k of
        Some v \<Rightarrow> Own v
      | None \<Rightarrow> if k \<in> set objectPrototypeKeys then Inherited else Undefined)"

text \<open>An assignment \<^verbatim>\<open>obj[k] = v\<close> overwrites an own property in place or creates it last.\<close>

fun set_property :: "string \<Rightarrow> 'a \<Rightarrow> (string \<times> 'a) list \<Rightarrow> (string \<times> 'a) list" where
  "set_property k v [] = [(k, v)]"
| "set_property k v ((k', v') # obj) =
     (if k' = k then (k, v) # obj else (k', v') # set_property k v obj)"

text \<open>
  \<^verbatim>\<open>Object.keys\<close> lists the own keys that are array indices (the decimal strings, without
  a leading zero, of the integers from 0 to \<open>2^32 - 2\<close>) in ascending numeric order, and after
  them all other string keys in the order of their creation.
\<close>

definition is_digit :: "char \<Rightarrow> bool" where
  "is_digit c = (48 \<le> (of_char c :: int) \<and> (of_char c :: int) \<le> 57)"

definition index_value :: "string \<Rightarrow> int" where
  "index_value s = foldl (\<lambda>acc c. 10 * acc + (int (of_char c) - 48)) 0 s"

definition isArrayIndex :: "string \<Rightarrow> bool" where
  "isArrayIndex s =
     (s \<noteq> [] \<and> list_all is_digit s \<and> (length s = 1 \<or> hd s \<noteq> CHR ''0'') \<and>
      index_value s < 4294967295)"

definition Object_keys :: "(string \<times> 'a) list \<Rightarrow> string list" where
  "Object_keys obj =
     (let ks = map fst obj
      in sort_key index_value (filter isArrayIndex ks) @ filter (\<lambda>k. \<not> isArrayIndex k) ks)"

section \<open>The forecast aggregator (GET /api/forecast/:city)\<close>

text \<open>
  One element of \<^verbatim>\<open>response.data.list\<close>: \<^verbatim>\<open>item.dt\<close>, \<^verbatim>\<open>item.main.temp\<close>,
  \<^verbatim>\<open>item.main.humidity\<close>, \<^verbatim>\<open>item.wind.speed\<close> and the array \<^verbatim>\<open>item.weather\<close>. The
  numeric fields hold the numbers as the provider's JSON writes them, in decimal; the
  handler sees them parsed, as \<open>double_of\<close> of these.
\<close>

record weather_condition =
  w_description :: string
  w_icon :: string

record forecast_item =
  dt :: rat
  main_temp :: rat
  main_humidity :: rat
  wind_speed :: rat
  weather :: "weather_condition list"

text \<open>The value stored under a date in \<^verbatim>\<open>grouped\<close>.\<close>

record day_group =
  temps :: "number list"
  humidity :: "number list"
  wind :: "number list"
  description :: string
  icon :: string

text \<open>One element of \<^verbatim>\<open>dailyData\<close>.\<close>

record daily_summary =
  date :: string
  temperature :: number
  ds_humidity :: number
  windSpeed :: fixed_string
  ds_description :: string
  ds_icon :: string

type_synonym grouped = "(string \<times> day_group) list"

text \<open>
  The body of the first \<^verbatim>\<open>forEach\<close>. Its first parameter stands for
  \<^verbatim>\<open>dt \<mapsto> new Date(dt * 1000).toLocaleDateString('en-IN')\<close>, which depends on the time
  zone and the locale data of the host. A date that is not yet a truthy property of
  \<^verbatim>\<open>grouped\<close> gets a fresh group, whose description and icon come from
  \<^verbatim>\<open>item.weather[0]\<close> (a TypeError when the array is empty); then the three numbers
  are pushed (a TypeError when \<^verbatim>\<open>grouped[date]\<close> is an inherited property, which has
  no \<^verbatim>\<open>temps\<close>).
\<close>

definition group_item :: "(rat \<Rightarrow> string) \<Rightarrow> grouped \<Rightarrow> forecast_item \<Rightarrow> js_error + grouped" where
  "group_item toLocaleDateString grouped item =
     (let date = toLocaleDateString (dt item);
          created =
            (case get_property grouped date of
               Undefined \<Rightarrow>
                 (case weather item of
                    [] \<Rightarrow> Inl TypeError
                  | w # _ \<Rightarrow>
                      Inr (set_property date
                             \<lparr>temps = [], humidity = [], wind = [],
                              description = w_description w, icon = w_icon w\<rparr> grouped))
             | _ \<Rightarrow> Inr grouped)
      in case created of
           Inl e \<Rightarrow> Inl e
         | Inr grouped' \<Rightarrow>
             (case get_property grouped' date of
                Own g \<Rightarrow>
                  Inr (set_property date
                         (g\<lparr>temps := temps g @ [double_of (main_temp item)],
                            humidity := humidity g @ [double_of (main_humidity item)],
                            wind := wind g @ [double_of (wind_speed item)]\<rparr>) grouped')
              | _ \<Rightarrow> Inl TypeError))"

fun forEach_group :: "(rat \<Rightarrow> string) \<Rightarrow> grouped \<Rightarrow> forecast_item list \<Rightarrow> js_error + grouped" where
  "forEach_group f grouped [] = Inr grouped"
| "forEach_group f grouped (item # items) =
     (case group_item f grouped item of
        Inl e \<Rightarrow> Inl e
      | Inr grouped' \<Rightarrow> forEach_group f grouped' items)"

text \<open>The object literal pushed by the second \<^verbatim>\<open>forEach\<close>.\<close>

definition summarise :: "string \<Rightarrow> day_group \<Rightarrow> js_error + daily_summary" where
  "summarise d data =
     (case reduce_add (temps data) of
        Inl e \<Rightarrow> Inl e
      | Inr t \<Rightarrow>
     (case reduce_add (humidity data) of
        Inl e \<Rightarrow> Inl e
      | Inr h \<Rightarrow>
     (case reduce_add (wind data) of
        Inl e \<Rightarrow> Inl e
      | Inr w \<Rightarrow>
          Inr \<lparr>date = d,
               temperature = Math_round (divide_by_length t (length (temps data))),
               ds_humidity = Math_round (divide_by_length h (length (humidity data))),
               windSpeed = toFixed (divide_by_length w (length (wind data))) 1,
               ds_description = description data,
               ds_icon = icon data\<rparr>)))"

fun forEach_emit :: "grouped \<Rightarrow> daily_summary list \<Rightarrow> string list \<Rightarrow> js_error + daily_summary list" where
  "forEach_emit grouped dailyData [] = Inr dailyData"
| "forEach_emit grouped dailyData (d # ds) =
     (case map_of grouped d of
        None \<Rightarrow> Inl TypeError
      | Some data \<Rightarrow>
          (case summarise d data of
             Inl e \<Rightarrow> Inl e
           | Inr s \<Rightarrow> forEach_emit grouped (dailyData @ [s]) ds))"

text \<open>Lines 100 to 129 of \<^verbatim>\<open>src/server.js\<close> (77 to 106 of \<^verbatim>\<open>part_000\<close>).\<close>

definition process_forecast :: "(rat \<Rightarrow> string) \<Rightarrow> forecast_item list \<Rightarrow> js_error + daily_summary list" where
  "process_forecast f items =
     (case forEach_group f [] items of
        Inl e \<Rightarrow> Inl e
      | Inr grouped \<Rightarrow> forEach_emit grouped [] (take 7 (Object_keys grouped)))"

section \<open>The document store\<close>

text \<open>
  \<^verbatim>\<open>response.data\<close> of the current-weather call: the handler reads its \<^verbatim>\<open>name\<close> only;
  the rest of the payload is opaque and stored as it is.
\<close>

record weather_payload =
  name :: "string option"
  json :: string

text \<open>The two collections: \<^verbatim>\<open>WeatherCache\<close> and \<^verbatim>\<open>SearchHistory\<close> documents.\<close>

record cache_entry =
  wc_city :: string
  wc_data :: weather_payload
  wc_cachedAt :: int

record search_record =
  sh_city :: string
  sh_searchedAt :: int
  sh_userId :: string

record database =
  WeatherCache :: "cache_entry list"
  SearchHistory :: "search_record list"

text \<open>
  What a request meets outside the handler's own code: the clock at its three readings,
  the two calls to the weather provider, the host's date rendering, the engine's
  \<^verbatim>\<open>String.prototype.toLowerCase\<close>, and which of the store's operations fail (a rejected
  promise).
\<close>

datatype db_op = FindOne | FindOneAndUpdate | Create | Find | DeleteMany

record env =
  now_find :: int
  now_update :: int
  now_create :: int
  axios_weather :: "string \<Rightarrow> js_error + weather_payload"
  axios_forecast :: "string \<Rightarrow> js_error + forecast_item list"
  toLocaleDateString :: "rat \<Rightarrow> string"
  toLowerCase :: "string \<Rightarrow> string"
  db_fails :: "db_op \<Rightarrow> bool"

text \<open>
  \<^verbatim>\<open>s.toLowerCase()\<close>: the empty string has no character to map and stays empty; every
  other string is mapped by the engine.
\<close>

definition String_toLowerCase :: "env \<Rightarrow> string \<Rightarrow> string" where
  "String_toLowerCase env s = (if s = [] then [] else toLowerCase env s)"

text \<open>
  \<^verbatim>\<open>WeatherCache.findOne({ city: c, cachedAt: { $gte: since } })\<close>: a document of that
  city cached at \<open>since\<close> or later.
\<close>

definition WeatherCache_findOne :: "env \<Rightarrow> database \<Rightarrow> string \<Rightarrow> int \<Rightarrow> js_error + cache_entry option" where
  "WeatherCache_findOne env db c since =
     (if db_fails env FindOne then Inl MongoError
      else Inr (find (\<lambda>e. wc_city e = c \<and> wc_cachedAt e \<ge> since) (WeatherCache db)))"

text \<open>
  \<^verbatim>\<open>WeatherCache.findOneAndUpdate({ city: c }, { city: c, data, cachedAt }, { upsert: true })\<close>:
  the first document of that city is overwritten, and a new one is inserted when there
  is none.
\<close>

fun upsert :: "cache_entry \<Rightarrow> cache_entry list \<Rightarrow> cache_entry list" where
  "upsert e [] = [e]"
| "upsert e (e' # es) = (if wc_city e' = wc_city e then e # es else e' # upsert e es)"

definition WeatherCache_findOneAndUpdate ::
    "env \<Rightarrow> database \<Rightarrow> string \<Rightarrow> weather_payload \<Rightarrow> int \<Rightarrow> js_error + database" where
  "WeatherCache_findOneAndUpdate env db c d t =
     (if db_fails env FindOneAndUpdate then Inl MongoError
      else Inr (db\<lparr>WeatherCache :=
                    upsert \<lparr>wc_city = c, wc_data = d, wc_cachedAt = t\<rparr> (WeatherCache db)\<rparr>))"

text \<open>
  \<^verbatim>\<open>SearchHistory.create({ city })\<close>: the schema requires \<^verbatim>\<open>city\<close>, so a missing or empty
  name is a validation error; \<^verbatim>\<open>searchedAt\<close> and \<^verbatim>\<open>userId\<close> take their defaults.
\<close>

definition SearchHistory_create :: "env \<Rightarrow> database \<Rightarrow> string option \<Rightarrow> js_error + database" where
  "SearchHistory_create env db c =
     (case c of
        None \<Rightarrow> Inl ValidationError
      | Some n \<Rightarrow>
          if n = [] then Inl ValidationError
          else if db_fails env Create then Inl MongoError
          else Inr (db\<lparr>SearchHistory :=
                        SearchHistory db @
                          [\<lparr>sh_city = n, sh_searchedAt = now_create env, sh_userId = ''default''\<rparr>]\<rparr>))"

text \<open>
  \<^verbatim>\<open>SearchHistory.find().sort({ searchedAt: -1 }).limit(10).select('city searchedAt')\<close>.
  The store leaves the order of documents with equal \<^verbatim>\<open>searchedAt\<close> open; the model
  keeps them in the order of their insertion.
\<close>

record history_item =
  city :: string
  searchedAt :: int

definition select_city_searchedAt :: "search_record \<Rightarrow> history_item" where
  "select_city_searchedAt r = \<lparr>city = sh_city r, searchedAt = sh_searchedAt r\<rparr>"

definition SearchHistory_find_recent :: "env \<Rightarrow> database \<Rightarrow> js_error + history_item list" where
  "SearchHistory_find_recent env db =
     (if db_fails env Find then Inl MongoError
      else Inr (map select_city_searchedAt
                  (take 10 (sort_key (\<lambda>r. - sh_searchedAt r) (SearchHistory db)))))"

definition SearchHistory_deleteMany :: "env \<Rightarrow> database \<Rightarrow> js_error + database" where
  "SearchHistory_deleteMany env db =
     (if db_fails env DeleteMany then Inl MongoError else Inr (db\<lparr>SearchHistory := []\<rparr>))"

section \<open>The route handlers\<close>

text \<open>
  A handler either sends a JSON response with a status, or its promise is rejected with
  nothing sent (\<open>Unhandled\<close>): there is no error middleware in either file. A request to
  a process that does not listen is \<open>Refused\<close>. \<open>CannotPage\<close> is the page Express itself
  sends, with status 404, for a path that no route matches.
\<close>

datatype json_body =
    OkJson
  | WeatherJson weather_payload
  | ForecastJson "daily_summary list"
  | HistoryJson "history_item list"
  | CitiesJson "string list"
  | MessageJson string
  | CannotPage

datatype response = Response nat json_body | Unhandled js_error | Refused

subsection \<open>GET /api/weather/:city\<close>

text \<open>
  The \<^verbatim>\<open>try\<close> block: the store as the block leaves it, and the response or the
  exception. The writes are awaited one after the other, so a failed history write
  leaves the cache write in place.
\<close>

definition weather_try :: "env \<Rightarrow> database \<Rightarrow> string \<Rightarrow> (js_error + response) \<times> database" where
  "weather_try env db c =
     (case WeatherCache_findOne env db (String_toLowerCase env c) (now_find env - 10 * 60 * 1000) of
        Inl e \<Rightarrow> (Inl e, db)
      | Inr (Some cached) \<Rightarrow> (Inr (Response 200 (WeatherJson (wc_data cached))), db)
      | Inr None \<Rightarrow>
          (case axios_weather env c of
             Inl e \<Rightarrow> (Inl e, db)
           | Inr d \<Rightarrow>
               (case WeatherCache_findOneAndUpdate env db (String_toLowerCase env c) d (now_update env) of
                  Inl e \<Rightarrow> (Inl e, db)
                | Inr db1 \<Rightarrow>
                    (case SearchHistory_create env db1 (name d) of
                       Inl e \<Rightarrow> (Inl e, db1)
                     | Inr db2 \<Rightarrow> (Inr (Response 200 (WeatherJson d)), db2)))))"

definition get_weather :: "env \<Rightarrow> database \<Rightarrow> string \<Rightarrow> response \<times> database" where
  "get_weather env db c =
     (case weather_try env db c of
        (Inl error, db') \<Rightarrow> (Response 404 (MessageJson ''City not found''), db')
      | (Inr r, db') \<Rightarrow> (r, db'))"

subsection \<open>GET /api/forecast/:city\<close>

definition forecast_try :: "env \<Rightarrow> string \<Rightarrow> js_error + response" where
  "forecast_try env c =
     (case axios_forecast env c of
        Inl e \<Rightarrow> Inl e
      | Inr items \<Rightarrow>
          (case process_forecast (toLocaleDateString env) items of
             Inl e \<Rightarrow> Inl e
           | Inr dailyData \<Rightarrow> Inr (Response 200 (ForecastJson dailyData))))"

definition get_forecast :: "env \<Rightarrow> database \<Rightarrow> string \<Rightarrow> response \<times> database" where
  "get_forecast env db c =
     (case forecast_try env c of
        Inl error \<Rightarrow> (Response 404 (MessageJson ''Forecast data not available''), db)
      | Inr r \<Rightarrow> (r, db))"

subsection \<open>GET /api/history and DELETE /api/history\<close>

text \<open>The \<^verbatim>\<open>forEach\<close> over \<^verbatim>\<open>history\<close>, with the set \<^verbatim>\<open>seen\<close> and the array \<^verbatim>\<open>uniqueHistory\<close>.\<close>

fun forEach_unique ::
    "env \<Rightarrow> string set \<Rightarrow> history_item list \<Rightarrow> history_item list \<Rightarrow> history_item list" where
  "forEach_unique env seen uniqueHistory [] = uniqueHistory"
| "forEach_unique env seen uniqueHistory (item # items) =
     (if String_toLowerCase env (city item) \<notin> seen
      then forEach_unique env (insert (String_toLowerCase env (city item)) seen) (uniqueHistory @ [item]) items
      else forEach_unique env seen uniqueHistory items)"

definition get_history :: "env \<Rightarrow> database \<Rightarrow> response \<times> database" where
  "get_history env db =
     (case SearchHistory_find_recent env db of
        Inl error \<Rightarrow> (Response 500 (MessageJson ''Error fetching history''), db)
      | Inr history \<Rightarrow> (Response 200 (HistoryJson (forEach_unique env {} [] history)), db))"

definition delete_history :: "env \<Rightarrow> database \<Rightarrow> response \<times> database" where
  "delete_history env db =
     (case SearchHistory_deleteMany env db of
        Inl error \<Rightarrow> (Response 500 (MessageJson ''Error clearing history''), db)
      | Inr db' \<Rightarrow> (Response 200 (MessageJson ''History cleared''), db'))"

subsection \<open>GET /api/cities/search\<close>

text \<open>
  \<^verbatim>\<open>req.query.q\<close> is a string, or absent, or (for a repeated or bracketed parameter) an
  array or object. The handler has no \<^verbatim>\<open>try\<close>: \<^verbatim>\<open>q.toLowerCase()\<close> runs inside the
  filter callback, at the first city, and throws a TypeError unless \<open>q\<close> is a string.
\<close>

datatype query_param = Absent | QString string | QOther

definition filter_cities :: "env \<Rightarrow> string list \<Rightarrow> string \<Rightarrow> string list" where
  "filter_cities env indianCities q =
     take 5
       (filter (\<lambda>city. includes_str (String_toLowerCase env city) (String_toLowerCase env q)) indianCities)"

definition cities_search :: "env \<Rightarrow> string list \<Rightarrow> query_param \<Rightarrow> response" where
  "cities_search env indianCities q =
     (case q of
        QString s \<Rightarrow> Response 200 (CitiesJson (filter_cities env indianCities s))
      | _ \<Rightarrow> if indianCities = [] then Response 200 (CitiesJson []) else Unhandled TypeError)"

text \<open>The list of \<^verbatim>\<open>src/server.js\<close>, lines 176 to 193.\<close>

definition server_indianCities :: "string list" where
  "server_indianCities =
    [''Mumbai'', ''Delhi'', ''Bangalore'', ''Hyderabad'', ''Ahmedabad'', ''Chennai'',
     ''Kolkata'', ''Surat'', ''Pune'', ''Jaipur'', ''Lucknow'', ''Kanpur'', ''Nagpur'',
     ''Indore'', ''Thane'', ''Bhopal'', ''Visakhapatnam'', ''Pimpri-Chinchwad'', ''Patna'',
     ''Vadodara'', ''Ghaziabad'', ''Ludhiana'', ''Agra'', ''Nashik'', ''Faridabad'',
     ''Meerut'', ''Rajkot'', ''Kalyan-Dombivali'', ''Vasai-Virar'', ''Varanasi'', ''Srinagar'',
     ''Aurangabad'', ''Dhanbad'', ''Amritsar'', ''Navi Mumbai'', ''Allahabad'', ''Ranchi'',
     ''Howrah'', ''Coimbatore'', ''Jabalpur'', ''Gwalior'', ''Vijayawada'', ''Jodhpur'',
     ''Madurai'', ''Raipur'', ''Kota'', ''Chandigarh'', ''Guwahati'', ''Solapur'',
     ''Hubli-Dharwad'', ''Mysore'', ''Tiruchirappalli'', ''Bareilly'', ''Aligarh'',
     ''Tiruppur'', ''Moradabad'', ''Jalandhar'', ''Bhubaneswar'', ''Salem'', ''Warangal'',
     ''Mira-Bhayandar'', ''Thiruvananthapuram'', ''Bhiwandi'', ''Saharanpur'', ''Guntur'',
     ''Amravati'', ''Bikaner'', ''Noida'', ''Jamshedpur'', ''Bhilai'', ''Cuttack'',
     ''Firozabad'', ''Kochi'', ''Nellore'', ''Bhavnagar'', ''Dehradun'', ''Durgapur'',
     ''Asansol'', ''Rourkela'', ''Nanded'', ''Kolhapur'', ''Ajmer'', ''Akola'', ''Gulbarga'',
     ''Jamnagar'', ''Ujjain'', ''Loni'', ''Siliguri'', ''Jhansi'', ''Ulhasnagar'', ''Jammu'',
     ''Sangli-Miraj'', ''Mangalore'', ''Erode'', ''Belgaum'', ''Ambattur'', ''Tirunelveli'',
     ''Malegaon'', ''Gaya'', ''Udaipur'', ''Maheshtala'', ''Panipat'']"

text \<open>The list of \<^verbatim>\<open>src/unnamed/part_000\<close>, lines 148 to 157.\<close>

definition part_000_indianCities :: "string list" where
  "part_000_indianCities =
    [''Mumbai'', ''Delhi'', ''Bangalore'', ''Hyderabad'', ''Ahmedabad'', ''Chennai'',
     ''Kolkata'', ''Surat'', ''Pune'', ''Jaipur'', ''Lucknow'', ''Kanpur'', ''Nagpur'',
     ''Indore'', ''Thane'', ''Bhopal'', ''Visakhapatnam'', ''Patna'', ''Vadodara'',
     ''Ghaziabad'', ''Ludhiana'', ''Agra'', ''Nashik'', ''Faridabad'', ''Meerut'', ''Rajkot'',
     ''Varanasi'', ''Srinagar'', ''Aurangabad'', ''Amritsar'', ''Navi Mumbai'', ''Allahabad'',
     ''Ranchi'', ''Coimbatore'', ''Jabalpur'', ''Gwalior'', ''Vijayawada'', ''Jodhpur'',
     ''Madurai'', ''Raipur'', ''Kota'', ''Chandigarh'', ''Guwahati'', ''Solapur'', ''Mysore'',
     ''Bareilly'', ''Aligarh'', ''Moradabad'', ''Jalandhar'', ''Bhubaneswar'', ''Salem'',
     ''Warangal'', ''Thiruvananthapuram'', ''Noida'', ''Jamshedpur'', ''Bhilai'', ''Cuttack'',
     ''Dehradun'', ''Durgapur'', ''Asansol'', ''Rourkela'', ''Nanded'', ''Kolhapur'',
     ''Ajmer'', ''Ujjain'', ''Jhansi'', ''Jammu'', ''Mangalore'', ''Erode'', ''Udaipur'',
     ''Panipat'']"

subsection \<open>The two applications\<close>

datatype request =
    GetHealth
  | GetWeather string
  | GetForecast string
  | GetHistory
  | DeleteHistory
  | GetCitiesSearch query_param

datatype route = Health | Weather | Forecast | HistoryGet | HistoryDelete | CitiesSearch

definition route_of :: "request \<Rightarrow> route" where
  "route_of req =
     (case req of
        GetHealth \<Rightarrow> Health
      | GetWeather c \<Rightarrow> Weather
      | GetForecast c \<Rightarrow> Forecast
      | GetHistory \<Rightarrow> HistoryGet
      | DeleteHistory \<Rightarrow> HistoryDelete
      | GetCitiesSearch q \<Rightarrow> CitiesSearch)"

text \<open>
  The top level of a file runs once, when the module is loaded. What decides whether
  requests are served: the registrations of the routes (\<^verbatim>\<open>app.get\<close>, \<^verbatim>\<open>app.delete\<close>), the
  declaration \<^verbatim>\<open>const PORT = ...\<close> and the calls \<^verbatim>\<open>app.listen(PORT, ...)\<close>. A \<^verbatim>\<open>const\<close>
  cannot be read before its declaration has run: the read throws a ReferenceError, which
  nothing catches, and the load ends there. A second \<^verbatim>\<open>listen\<close> on the port finds it in
  use. Every other statement (\<^verbatim>\<open>require\<close>, \<^verbatim>\<open>app.use\<close>, the connection to the store, the
  schemas and models) is \<open>Other\<close>: it throws nothing while the module loads.
\<close>

datatype statement = Register route | Const_PORT | Listen_PORT | Other

record app =
  port_initialised :: bool
  registered :: "route list"
  listening :: bool

definition exec :: "statement \<Rightarrow> app \<Rightarrow> js_error + app" where
  "exec st a =
     (case st of
        Register r \<Rightarrow> Inr (a\<lparr>registered := registered a @ [r]\<rparr>)
      | Const_PORT \<Rightarrow> Inr (a\<lparr>port_initialised := True\<rparr>)
      | Listen_PORT \<Rightarrow>
          if \<not> port_initialised a then Inl ReferenceError
          else if listening a then Inl AddressInUse
          else Inr (a\<lparr>listening := True\<rparr>)
      | Other \<Rightarrow> Inr a)"

fun load :: "statement list \<Rightarrow> app \<Rightarrow> js_error + app" where
  "load [] a = Inr a"
| "load (st # sts) a = (case exec st a of Inl e \<Rightarrow> Inl e | Inr a' \<Rightarrow> load sts a')"

definition fresh_app :: app where
  "fresh_app = \<lparr>port_initialised = False, registered = [], listening = False\<rparr>"

text \<open>
  A request to a file: refused when the load has thrown or nothing listens, and
  otherwise handed to the callback of its route.
\<close>

definition serve ::
    "statement list \<Rightarrow> (env \<Rightarrow> database \<Rightarrow> request \<Rightarrow> response \<times> database) \<Rightarrow>
     env \<Rightarrow> database \<Rightarrow> request \<Rightarrow> response \<times> database" where
  "serve statements callbacks env db req =
     (case load statements fresh_app of
        Inl e \<Rightarrow> (Refused, db)
      | Inr a \<Rightarrow>
          if \<not> listening a then (Refused, db)
          else if route_of req \<in> set (registered a) then callbacks env db req
          else (Response 404 CannotPage, db))"

text \<open>
  \<^verbatim>\<open>src/server.js\<close>, top to bottom: lines 1 to 12 (\<^verbatim>\<open>require\<close>, \<^verbatim>\<open>express()\<close>,
  \<^verbatim>\<open>app.use(cors(...))\<close>), the health route of line 15, \<^verbatim>\<open>app.listen(PORT, ...)\<close> of line
  18, lines 21 to 50 (middleware, store connection, schemas, constants), the routes of
  lines 55, 91, 138, 163 and 173, \<^verbatim>\<open>const PORT\<close> of line 202 and \<^verbatim>\<open>app.listen(PORT, ...)\<close>
  of line 204.
\<close>

definition server_js_statements :: "statement list" where
  "server_js_statements =
     [Other, Register Health, Listen_PORT, Other,
      Register Weather, Register Forecast, Register HistoryGet, Register HistoryDelete,
      Register CitiesSearch, Const_PORT, Listen_PORT]"

text \<open>The callbacks that \<^verbatim>\<open>src/server.js\<close> passes to its routes, as they are written.\<close>

definition server_js_callbacks :: "env \<Rightarrow> database \<Rightarrow> request \<Rightarrow> response \<times> database" where
  "server_js_callbacks env db req =
     (case req of
        GetHealth \<Rightarrow> (Response 200 OkJson, db)
      | GetWeather c \<Rightarrow> get_weather env db c
      | GetForecast c \<Rightarrow> get_forecast env db c
      | GetHistory \<Rightarrow> get_history env db
      | DeleteHistory \<Rightarrow> delete_history env db
      | GetCitiesSearch q \<Rightarrow> (cities_search env server_indianCities q, db))"

definition server_js :: "env \<Rightarrow> database \<Rightarrow> request \<Rightarrow> response \<times> database" where
  "server_js = serve server_js_statements server_js_callbacks"

text \<open>
  \<^verbatim>\<open>src/unnamed/part_000\<close>, top to bottom: lines 1 to 38 (\<^verbatim>\<open>require\<close>, \<^verbatim>\<open>express()\<close>,
  middleware, store connection, schemas, constants), the routes of lines 41, 70, 114,
  137 and 146, the health route of line 163, \<^verbatim>\<open>const PORT\<close> of line 166 and
  \<^verbatim>\<open>app.listen(PORT, ...)\<close> of line 167.
\<close>

definition part_000_statements :: "statement list" where
  "part_000_statements =
     [Other, Register Weather, Register Forecast, Register HistoryGet, Register HistoryDelete,
      Register CitiesSearch, Register Health, Const_PORT, Listen_PORT]"

definition part_000_callbacks :: "env \<Rightarrow> database \<Rightarrow> request \<Rightarrow> response \<times> database" where
  "part_000_callbacks env db req =
     (case req of
        GetWeather c \<Rightarrow> get_weather env db c
      | GetForecast c \<Rightarrow> get_forecast env db c
      | GetHistory \<Rightarrow> get_history env db
      | DeleteHistory \<Rightarrow> delete_history env db
      | GetCitiesSearch q \<Rightarrow> (cities_search env part_000_indianCities q, db)
      | GetHealth \<Rightarrow> (Response 200 OkJson, db))"

definition part_000 :: "env \<Rightarrow> database \<Rightarrow> request \<Rightarrow> response \<times> database" where
  "part_000 = serve part_000_statements part_000_callbacks"

section \<open>Notions of the specification\<close>

text \<open>
  The definitions of this section follow the words of the specification, not the code;
  the theorems below compare the code with them.
\<close>

text \<open>The samples of one date bucket, in input order, and the exact mean of a list of numbers.\<close>

definition bucket :: "(rat \<Rightarrow> string) \<Rightarrow> forecast_item list \<Rightarrow> string \<Rightarrow> forecast_item list" where
  "bucket f items d = filter (\<lambda>i. f (dt i) = d) items"

definition mean :: "rat list \<Rightarrow> rat" where
  "mean xs = sum_list xs / of_nat (length xs)"

text \<open>Rounding to the nearest integer, a tie going away from zero.\<close>

definition round_half_away :: "rat \<Rightarrow> int" where
  "round_half_away x = (if 0 \<le> x then \<lfloor>x + 1 / 2\<rfloor> else - \<lfloor>- x + 1 / 2\<rfloor>)"

text \<open>
  A number written with exactly one digit after the decimal point, rounded (not
  truncated) to the nearest tenth.
\<close>

definition one_decimal :: "rat \<Rightarrow> string" where
  "one_decimal x =
     (let n = nat (round_half_away (\<bar>x\<bar> * 10))
      in (if x < 0 then ''-'' else []) @ digits (n div 10) @ ''.'' @ [digit_char (n mod 10)])"

text \<open>The distinct elements of a list in the order of their first occurrence.\<close>

fun first_encountered :: "'a list \<Rightarrow> 'a list" where
  "first_encountered [] = []"
| "first_encountered (x # xs) = x # first_encountered (filter (\<lambda>y. y \<noteq> x) xs)"

text \<open>
  Of the elements of a list that share a key only the first is kept; the later ones are
  dropped.
\<close>

fun keep_first :: "('a \<Rightarrow> 'k) \<Rightarrow> 'a list \<Rightarrow> 'a list" where
  "keep_first key [] = []"
| "keep_first key (x # xs) = x # keep_first key (filter (\<lambda>y. key y \<noteq> key x) xs)"

text \<open>Freshness as the specification words it: \<open>now - cachedAt < 10 minutes\<close>.\<close>

definition spec_fresh :: "int \<Rightarrow> cache_entry \<Rightarrow> bool" where
  "spec_fresh now e = (now - wc_cachedAt e < 10 * 60 * 1000)"

text \<open>\<open>p\<close> occurs in \<open>s\<close> as a contiguous substring.\<close>

definition is_substring :: "string \<Rightarrow> string \<Rightarrow> bool" where
  "is_substring p s = (\<exists>a b. s = a @ p @ b)"

text \<open>
  The keys the aggregator meets are dates as the host renders them (\<open>3/11/2026\<close> in the
  India locale, or \<open>Invalid Date\<close>): never an array index, never the name of a property
  of \<^verbatim>\<open>Object.prototype\<close>.
\<close>

definition date_key :: "string \<Rightarrow> bool" where
  "date_key k = (\<not> isArrayIndex k \<and> k \<notin> set objectPrototypeKeys)"

text \<open>
  A sample host for concrete runs: the clock of a host on UTC renders the seconds of
  January 1970 as day, month and year.
\<close>

definition example_toLocaleDateString :: "rat \<Rightarrow> string" where
  "example_toLocaleDateString t = digits (nat \<lfloor>t / 86400\<rfloor> + 1) @ ''/1/1970''"

text \<open>A sample with one weather condition, for concrete runs.\<close>

definition example_item :: "rat \<Rightarrow> rat \<Rightarrow> rat \<Rightarrow> rat \<Rightarrow> forecast_item" where
  "example_item t c h w =
     \<lparr>dt = t, main_temp = c, main_humidity = h, wind_speed = w,
      weather = [\<lparr>w_description = ''clear sky'', w_icon = ''01d''\<rparr>]\<rparr>"

text \<open>Three samples of one day, and twelve samples that fall on ten different days.\<close>

definition example_day :: "forecast_item list" where
  "example_day =
     [example_item 0 10 40 1, example_item 10800 20 50 2, example_item 21600 21 51 (22 / 10)]"

definition example_ten_days :: "forecast_item list" where
  "example_ten_days =
     map (\<lambda>k. example_item (86400 * k) 30 60 3) [4, 2, 9, 0, 4, 7, 1, 8, 3, 6, 5, 2]"

text \<open>
  A request that misses the cache, gets the payload \<open>d\<close> from the provider and stores
  it: both writes go through.
\<close>

definition fetched_and_stored :: "env \<Rightarrow> database \<Rightarrow> string \<Rightarrow> weather_payload \<Rightarrow> bool" where
  "fetched_and_stored env db c d =
     (WeatherCache_findOne env db (String_toLowerCase env c) (now_find env - 10 * 60 * 1000) = Inr None \<and>
      axios_weather env c = Inr d \<and> \<not> db_fails env FindOneAndUpdate \<and>
      name d \<noteq> None \<and> name d \<noteq> Some [] \<and> \<not> db_fails env Create)"

text \<open>The names that only the list of \<^verbatim>\<open>src/server.js\<close> has.\<close>

definition server_only_cities :: "string list" where
  "server_only_cities = filter (\<lambda>c. c \<notin> set part_000_indianCities) server_indianCities"

text \<open>
  A store and a world for concrete runs: Pune was cached at time 0; the history holds,
  oldest first, Delhi, Pune, Mumbai and Pune; the provider knows Pune only; all strings
  are ASCII; no operation of the store fails.
\<close>

definition example_payload :: weather_payload where
  "example_payload = \<lparr>name = Some ''Pune'', json = ''{temp: 30}''\<rparr>"

definition example_db :: database where
  "example_db =
     \<lparr>WeatherCache = [\<lparr>wc_city = ''pune'', wc_data = example_payload, wc_cachedAt = 0\<rparr>],
      SearchHistory =
        [\<lparr>sh_city = ''Delhi'', sh_searchedAt = 1000, sh_userId = ''default''\<rparr>,
         \<lparr>sh_city = ''Pune'', sh_searchedAt = 2000, sh_userId = ''default''\<rparr>,
         \<lparr>sh_city = ''Mumbai'', sh_searchedAt = 3000, sh_userId = ''default''\<rparr>,
         \<lparr>sh_city = ''Pune'', sh_searchedAt = 4000, sh_userId = ''default''\<rparr>]\<rparr>"

definition example_env :: "int \<Rightarrow> env" where
  "example_env now =
     \<lparr>now_find = now, now_update = now, now_create = now,
      axios_weather =
        (\<lambda>c. if ascii_toLowerCase c = ''pune'' then Inr example_payload else Inl AxiosError),
      axios_forecast = (\<lambda>c. Inr example_day),
      toLocaleDateString = example_toLocaleDateString,
      toLowerCase = ascii_toLowerCase,
      db_fails = (\<lambda>op. False)\<rparr>"

section \<open>The aggregator: grouping, keys and means\<close>

lemma map_fst_set_property_old:
  "k \<in> fst ` set obj \<Longrightarrow> map fst (set_property k v obj) = map fst obj"
  by (induction obj) force+

lemma map_fst_set_property_new:
  "k \<notin> fst ` set obj \<Longrightarrow> map fst (set_property k v obj) = map fst obj @ [k]"
  by (induction obj) auto

lemma map_of_set_property: "map_of (set_property k v obj) = (map_of obj)(k \<mapsto> v)"
  by (induction obj) auto

lemma map_of_Some_fst: "map_of obj k = Some v \<Longrightarrow> k \<in> fst ` set obj"
  by (metis domI dom_map_of_conv_image_fst)

lemma map_of_None_fst: "map_of obj k = None \<longleftrightarrow> k \<notin> fst ` set obj"
  by (simp add: map_of_eq_None_iff)

lemma group_item_cases:
  assumes "group_item f g i = Inr g'"
  obtains (old) old where "map_of g (f (dt i)) = Some old"
      and "g' = set_property (f (dt i))
                  (old\<lparr>temps := temps old @ [double_of (main_temp i)],
                       humidity := humidity old @ [double_of (main_humidity i)],
                       wind := wind old @ [double_of (wind_speed i)]\<rparr>) g"
  | (new) w ws where "map_of g (f (dt i)) = None"
      and "f (dt i) \<notin> set objectPrototypeKeys" and "weather i = w # ws"
      and "g' = set_property (f (dt i))
                  \<lparr>temps = [double_of (main_temp i)], humidity = [double_of (main_humidity i)],
                   wind = [double_of (wind_speed i)],
                   description = w_description w, icon = w_icon w\<rparr>
                  (set_property (f (dt i))
                     \<lparr>temps = [], humidity = [], wind = [],
                      description = w_description w, icon = w_icon w\<rparr> g)"
proof (cases "map_of g (f (dt i))")
  case None
  with assms show ?thesis
    by (auto simp: group_item_def Let_def get_property_def map_of_set_property
          split: list.splits if_splits intro: new)
next
  case (Some old)
  with assms show ?thesis
    by (auto simp: group_item_def Let_def get_property_def intro: old)
qed

lemma group_item_keys:
  assumes "group_item f g i = Inr g'"
  shows "map fst g' = (if f (dt i) \<in> fst ` set g then map fst g else map fst g @ [f (dt i)])"
  using assms
proof (cases rule: group_item_cases)
  case (old old)
  then show ?thesis
    by (simp add: map_of_Some_fst map_fst_set_property_old)
next
  case (new w ws)
  then have "f (dt i) \<notin> fst ` set g" by (simp add: map_of_None_fst)
  moreover have "f (dt i) \<in> fst ` set (set_property (f (dt i)) v g)" for v
    by (rule map_of_Some_fst [where v = v]) (simp add: map_of_set_property)
  ultimately show ?thesis using new(4)
    by (simp add: map_fst_set_property_old map_fst_set_property_new)
qed

lemma group_item_other:
  assumes "group_item f g i = Inr g'" and "k \<noteq> f (dt i)"
  shows "map_of g' k = map_of g k"
  using assms(1)
  by (cases rule: group_item_cases) (simp_all add: map_of_set_property assms(2))

lemma group_item_same:
  assumes "group_item f g i = Inr g'"
  shows "\<exists>grp. map_of g' (f (dt i)) = Some grp \<and>
           temps grp = (case map_of g (f (dt i)) of Some old \<Rightarrow> temps old | None \<Rightarrow> []) @ [double_of (main_temp i)] \<and>
           humidity grp = (case map_of g (f (dt i)) of Some old \<Rightarrow> humidity old | None \<Rightarrow> []) @ [double_of (main_humidity i)] \<and>
           wind grp = (case map_of g (f (dt i)) of Some old \<Rightarrow> wind old | None \<Rightarrow> []) @ [double_of (wind_speed i)]"
  using assms
  by (cases rule: group_item_cases) (simp_all add: map_of_set_property)

lemma set_first_encountered [simp]: "set (first_encountered xs) = set xs"
  by (induction xs rule: first_encountered.induct) auto

lemma distinct_first_encountered [simp]: "distinct (first_encountered xs)"
  by (induction xs rule: first_encountered.induct) auto

lemma length_first_encountered: "length (first_encountered xs) = card (set xs)"
  using distinct_card [of "first_encountered xs"] by simp

lemma forEach_group_keys:
  "forEach_group f g items = Inr g' \<Longrightarrow>
   map fst g' = map fst g @ first_encountered (filter (\<lambda>k. k \<notin> fst ` set g) (map (\<lambda>i. f (dt i)) items))"
proof (induction items arbitrary: g)
  case Nil
  then show ?case by simp
next
  case (Cons i items)
  from Cons.prems obtain g1 where step: "group_item f g i = Inr g1"
    and rest: "forEach_group f g1 items = Inr g'"
    by (auto split: sum.splits)
  note ih = Cons.IH [OF rest]
  note ks = group_item_keys [OF step]
  show ?case
  proof (cases "f (dt i) \<in> fst ` set g")
    case True
    with ks have "map fst g1 = map fst g" by simp
    then have "fst ` set g1 = fst ` set g" by (metis set_map)
    with ih True \<open>map fst g1 = map fst g\<close> show ?thesis by simp
  next
    case False
    with ks have m: "map fst g1 = map fst g @ [f (dt i)]" by simp
    then have s: "fst ` set g1 = insert (f (dt i)) (fst ` set g)" 
      by (metis set_map set_append list.set(1,2) Un_insert_right sup_bot.right_neutral)
    have "filter (\<lambda>k. k \<notin> fst ` set g1) (map (\<lambda>i. f (dt i)) items) =
          filter (\<lambda>y. y \<noteq> f (dt i)) (filter (\<lambda>k. k \<notin> fst ` set g) (map (\<lambda>i. f (dt i)) items))"
      unfolding s by (auto intro: filter_cong)
    with ih m False show ?thesis by simp
  qed
qed

lemma forEach_group_values:
  "forEach_group f g items = Inr g' \<Longrightarrow> map_of g' k = Some grp \<Longrightarrow>
   temps grp = (case map_of g k of Some old \<Rightarrow> temps old | None \<Rightarrow> []) @
     map (\<lambda>i. double_of (main_temp i)) (bucket f items k) \<and>
   humidity grp = (case map_of g k of Some old \<Rightarrow> humidity old | None \<Rightarrow> []) @
     map (\<lambda>i. double_of (main_humidity i)) (bucket f items k) \<and>
   wind grp = (case map_of g k of Some old \<Rightarrow> wind old | None \<Rightarrow> []) @
     map (\<lambda>i. double_of (wind_speed i)) (bucket f items k)"
proof (induction items arbitrary: g)
  case Nil
  then show ?case by (simp add: bucket_def)
next
  case (Cons i items)
  from Cons.prems(1) obtain g1 where step: "group_item f g i = Inr g1"
    and rest: "forEach_group f g1 items = Inr g'"
    by (auto split: sum.splits)
  note ih = Cons.IH [OF rest Cons.prems(2)]
  show ?case
  proof (cases "k = f (dt i)")
    case True
    from group_item_same [OF step] True ih show ?thesis
      by (auto simp: bucket_def)
  next
    case False
    from group_item_other [OF step False] False ih show ?thesis
      by (auto simp: bucket_def)
  qed
qed

lemma reduce_add_Inr:
  "reduce_add xs = Inr t \<longleftrightarrow> xs \<noteq> [] \<and> t = foldl number_add (hd xs) (tl xs)"
  by (cases xs) auto

lemma reduce_add_mean:
  "reduce_add xs = Inr t \<Longrightarrow> divide_by_length t (length xs) = number_mean xs"
  by (cases xs) (auto simp: number_mean_def)

lemma reduce_add_Inl: "reduce_add xs = Inl e \<longleftrightarrow> xs = [] \<and> e = TypeError"
  by (cases xs) auto

lemma summarise_Inr:
  assumes "summarise d data = Inr s"
  shows "date s = d" and "temps data \<noteq> []" and "humidity data \<noteq> []" and "wind data \<noteq> []"
    and "temperature s = Math_round (number_mean (temps data))"
    and "ds_humidity s = Math_round (number_mean (humidity data))"
    and "windSpeed s = toFixed (number_mean (wind data)) 1"
  using assms
  by (auto simp: summarise_def reduce_add_Inr reduce_add_mean split: sum.splits)

lemma summarise_total:
  assumes "temps data \<noteq> []" and "humidity data \<noteq> []" and "wind data \<noteq> []"
  shows "\<exists>s. summarise d data = Inr s"
  using assms
  by (auto simp: summarise_def reduce_add_Inl split: sum.splits)

lemma forEach_emit_Inr:
  "forEach_emit g acc ks = Inr out \<Longrightarrow>
   \<exists>ss. out = acc @ ss \<and> map date ss = ks \<and>
        (\<forall>s\<in>set ss. \<exists>data. map_of g (date s) = Some data \<and> summarise (date s) data = Inr s)"
proof (induction ks arbitrary: acc)
  case Nil
  then show ?case by simp
next
  case (Cons k ks)
  from Cons.prems obtain data s where d: "map_of g k = Some data"
    and s: "summarise k data = Inr s" and rest: "forEach_emit g (acc @ [s]) ks = Inr out"
    by (auto split: option.splits sum.splits)
  from Cons.IH [OF rest] obtain ss where ss: "out = (acc @ [s]) @ ss" "map date ss = ks"
    "\<forall>s\<in>set ss. \<exists>data. map_of g (date s) = Some data \<and> summarise (date s) data = Inr s"
    by blast
  have "date s = k" using s by (rule summarise_Inr(1))
  with d s ss show ?case
    by (intro exI [of _ "s # ss"]) auto
qed

lemma forEach_emit_total:
  "\<forall>k\<in>set ks. \<exists>data. map_of g k = Some data \<and> temps data \<noteq> [] \<and> humidity data \<noteq> [] \<and> wind data \<noteq> []
   \<Longrightarrow> \<exists>out. forEach_emit g acc ks = Inr out"
proof (induction ks arbitrary: acc)
  case Nil
  then show ?case by simp
next
  case (Cons k ks)
  then obtain data where d: "map_of g k = Some data" "temps data \<noteq> []" "humidity data \<noteq> []" "wind data \<noteq> []"
    by auto
  then obtain s where "summarise k data = Inr s" using summarise_total by blast
  with d Cons show ?case by simp
qed

lemma set_Object_keys: "set (Object_keys obj) = fst ` set obj"
  by (auto simp: Object_keys_def Let_def)

lemma Object_keys_plain:
  "\<forall>k\<in>fst ` set obj. \<not> isArrayIndex k \<Longrightarrow> Object_keys obj = map fst obj"
proof -
  assume a: "\<forall>k\<in>fst ` set obj. \<not> isArrayIndex k"
  then have "filter isArrayIndex (map fst obj) = []" by (auto simp: filter_empty_conv)
  moreover from a have "filter (\<lambda>k. \<not> isArrayIndex k) (map fst obj) = map fst obj"
    by (auto simp: filter_id_conv)
  ultimately show ?thesis by (simp add: Object_keys_def Let_def)
qed

lemma forEach_group_keys_empty:
  "forEach_group f [] items = Inr g \<Longrightarrow> map fst g = first_encountered (map (\<lambda>i. f (dt i)) items)"
  using forEach_group_keys [of f "[]" items g] by simp

lemma forEach_group_values_empty:
  assumes "forEach_group f [] items = Inr g" and "map_of g k = Some grp"
  shows "temps grp = map (\<lambda>i. double_of (main_temp i)) (bucket f items k)"
    and "humidity grp = map (\<lambda>i. double_of (main_humidity i)) (bucket f items k)"
    and "wind grp = map (\<lambda>i. double_of (wind_speed i)) (bucket f items k)"
  using forEach_group_values [OF assms] by simp_all

lemma bucket_nonempty:
  assumes "forEach_group f [] items = Inr g" and "map_of g k = Some grp"
  shows "bucket f items k \<noteq> []"
proof -
  from assms(2) have "k \<in> set (map fst g)" using map_of_Some_fst by fastforce
  with forEach_group_keys_empty [OF assms(1)] have "k \<in> (\<lambda>i. f (dt i)) ` set items" by simp
  then show ?thesis by (auto simp: bucket_def filter_empty_conv)
qed

lemma round_tie_up_round_half_away:
  "\<lfloor>x + 1 / 2\<rfloor> =
     (if (x::rat) < 0 \<and> x + 1 / 2 \<in> \<int> then round_half_away x + 1 else round_half_away x)"
proof -
  have "x + 1 / 2 \<in> \<int> \<longleftrightarrow> of_int \<lfloor>x + 1 / 2\<rfloor> = x + 1 / 2"
    by (metis Ints_of_int of_int_floor)
  then show ?thesis
    unfolding round_half_away_def by (auto; linarith)
qed

lemma digits_lt10: "n < 10 \<Longrightarrow> digits n = [digit_char n]"
  by (simp add: digits.simps)

lemma digits_ge10: "10 \<le> n \<Longrightarrow> digits n = digits (n div 10) @ [digit_char (n mod 10)]"
  by (subst digits.simps) simp

lemma digits_nonempty: "digits n \<noteq> []"
  by (subst digits.simps) simp

lemma digit_char_0: "digit_char 0 = CHR ''0''"
  by code_simp

lemma fixed_digits_1: "fixed_digits n 1 = digits (n div 10) @ ''.'' @ [digit_char (n mod 10)]"
proof (cases "n < 10")
  case True
  then show ?thesis
    by (simp add: fixed_digits_def digits_lt10 digit_char_0 Let_def)
next
  case False
  then have "digits n = digits (n div 10) @ [digit_char (n mod 10)]"
    by (simp add: digits_ge10)
  moreover have "digits (n div 10) \<noteq> []" by (rule digits_nonempty)
  ultimately show ?thesis
    by (cases "digits (n div 10)") (simp_all add: fixed_digits_def Let_def)
qed

lemma toFixed_one_decimal:
  assumes "\<bar>x\<bar> < 10 ^ 21"
  shows "toFixed (Finite x) 1 = Decimal (one_decimal x)"
  using assms
  by (auto simp: one_decimal_def round_half_away_def fixed_digits_1 [unfolded One_nat_def] Let_def)

lemma date_key_slash: "CHR ''/'' \<in> set k \<Longrightarrow> date_key k"
proof -
  assume a: "CHR ''/'' \<in> set k"
  have "\<not> is_digit CHR ''/''" by code_simp
  with a have "\<not> list_all is_digit k" by (auto simp: list_all_iff)
  then have "\<not> isArrayIndex k" by (simp add: isArrayIndex_def)
  moreover have "\<forall>p\<in>set objectPrototypeKeys. CHR ''/'' \<notin> set p" by code_simp
  with a have "k \<notin> set objectPrototypeKeys" by blast
  ultimately show ?thesis by (simp add: date_key_def)
qed

lemma forecast_values:
  assumes "process_forecast f items = Inr out" and "s \<in> set out"
  shows "bucket f items (date s) \<noteq> []"
    and "temperature s = Math_round (double_mean (map main_temp (bucket f items (date s))))"
    and "ds_humidity s = Math_round (double_mean (map main_humidity (bucket f items (date s))))"
    and "windSpeed s = toFixed (double_mean (map wind_speed (bucket f items (date s)))) 1"
proof -
  from assms(1) obtain g where g: "forEach_group f [] items = Inr g"
    and e: "forEach_emit g [] (take 7 (Object_keys g)) = Inr out"
    by (auto simp: process_forecast_def split: sum.splits)
  from forEach_emit_Inr [OF e] assms(2) obtain data where
    d: "map_of g (date s) = Some data" and su: "summarise (date s) data = Inr s"
    by auto
  note v = forEach_group_values_empty [OF g d]
  show "bucket f items (date s) \<noteq> []" using g d by (rule bucket_nonempty)
  show "temperature s = Math_round (double_mean (map main_temp (bucket f items (date s))))"
    using summarise_Inr(5) [OF su] v by (simp add: double_mean_def comp_def)
  show "ds_humidity s = Math_round (double_mean (map main_humidity (bucket f items (date s))))"
    using summarise_Inr(6) [OF su] v by (simp add: double_mean_def comp_def)
  show "windSpeed s = toFixed (double_mean (map wind_speed (bucket f items (date s)))) 1"
    using summarise_Inr(7) [OF su] v by (simp add: double_mean_def comp_def)
qed

lemma forEach_group_total:
  "\<forall>i\<in>set items. weather i \<noteq> [] \<and> f (dt i) \<notin> set objectPrototypeKeys
   \<Longrightarrow> \<exists>g'. forEach_group f g items = Inr g'"
proof (induction items arbitrary: g)
  case Nil
  then show ?case by simp
next
  case (Cons i items)
  then have w: "weather i \<noteq> []" and p: "f (dt i) \<notin> set objectPrototypeKeys" by auto
  have "\<exists>g1. group_item f g i = Inr g1"
    using w p
    by (auto simp: group_item_def Let_def get_property_def map_of_set_property
        split: option.splits list.splits)
  then obtain g1 where "group_item f g i = Inr g1" ..
  moreover from Cons obtain g' where "forEach_group f g1 items = Inr g'" by fastforce
  ultimately show ?case by simp
qed

lemma process_forecast_order:
  assumes "\<forall>i\<in>set items. weather i \<noteq> [] \<and> date_key (f (dt i))"
  shows "\<exists>out. process_forecast f items = Inr out \<and>
           map date out = take 7 (first_encountered (map (\<lambda>i. f (dt i)) items)) \<and>
           length out = min 7 (card ((\<lambda>i. f (dt i)) ` set items))"
proof -
  from assms have "\<forall>i\<in>set items. weather i \<noteq> [] \<and> f (dt i) \<notin> set objectPrototypeKeys"
    by (simp add: date_key_def)
  then obtain g where g: "forEach_group f [] items = Inr g"
    using forEach_group_total by blast
  note ks = forEach_group_keys_empty [OF g]
  have "fst ` set g = (\<lambda>i. f (dt i)) ` set items"
    using ks by (metis set_map set_first_encountered)
  with assms have "\<forall>k\<in>fst ` set g. \<not> isArrayIndex k" by (auto simp: date_key_def)
  then have ok: "Object_keys g = map fst g" by (rule Object_keys_plain)
  have "\<forall>k\<in>set (take 7 (Object_keys g)). \<exists>data. map_of g k = Some data \<and>
          temps data \<noteq> [] \<and> humidity data \<noteq> [] \<and> wind data \<noteq> []"
  proof
    fix k assume "k \<in> set (take 7 (Object_keys g))"
    then have "k \<in> fst ` set g" using set_Object_keys by (metis in_set_takeD)
    then obtain data where d: "map_of g k = Some data"
      by (metis map_of_None_fst not_Some_eq)
    from bucket_nonempty [OF g d] forEach_group_values_empty [OF g d]
    show "\<exists>data. map_of g k = Some data \<and> temps data \<noteq> [] \<and> humidity data \<noteq> [] \<and> wind data \<noteq> []"
      using d by simp
  qed
  then obtain out where e: "forEach_emit g [] (take 7 (Object_keys g)) = Inr out"
    using forEach_emit_total by blast
  from forEach_emit_Inr [OF e] have m: "map date out = take 7 (Object_keys g)" by auto
  have p: "process_forecast f items = Inr out" using g e by (simp add: process_forecast_def)
  have "length out = length (map date out)" by simp
  also have "\<dots> = min 7 (card ((\<lambda>i. f (dt i)) ` set items))"
    unfolding m ok ks by (simp add: length_first_encountered min.commute)
  finally have l: "length out = min 7 (card ((\<lambda>i. f (dt i)) ` set items))" .
  from m ok ks have "map date out = take 7 (first_encountered (map (\<lambda>i. f (dt i)) items))" by simp
  with p l show ?thesis by blast
qed

lemma date_key_invalid: "date_key ''Invalid Date''"
  by code_simp

text \<open>At \<open>10^21\<close> and above \<^verbatim>\<open>toFixed\<close> gives the exponent notation, with no fixed number of digits.\<close>

lemma toFixed_exponent_notation: "toFixed (Finite (10 ^ 21)) 1 = Exponential [] (10 ^ 21)"
  by simp

section \<open>Daily means and their rounding\<close>

text \<open>
  Claim C1, as the code has it. Every summary the aggregator emits stands for a non-empty
  date bucket of the input. Its temperature is \<^verbatim>\<open>Math.round\<close> of the mean of the bucket's
  temperatures as double arithmetic gives it (the values added from left to right and
  the sum divided by their count, every step rounded to the nearest double): the integer
  nearest to that mean, a tie going up, towards plus infinity. This is rounding half away
  from zero unless the mean is negative and lies exactly halfway between two integers,
  where it is one more. Its humidity is rounded in the same way. Its wind speed, when
  the mean is finite and below \<open>10^21\<close> in magnitude, is the mean written with exactly one
  digit after the decimal point, rounded to the nearest tenth with a tie going away from
  zero.
\<close>

theorem forecast_summary_rounding:
  assumes "process_forecast f items = Inr out" and "s \<in> set out"
  shows "let B = bucket f items (date s);
             t = double_mean (map main_temp B);
             h = double_mean (map main_humidity B);
             w = double_mean (map wind_speed B)
         in B \<noteq> [] \<and>
            temperature s = Math_round t \<and> ds_humidity s = Math_round h \<and>
            windSpeed s = toFixed w 1 \<and>
            (\<forall>m. t = Finite m \<longrightarrow>
               temperature s = Finite (of_int \<lfloor>m + 1 / 2\<rfloor>) \<and>
               \<lfloor>m + 1 / 2\<rfloor> =
                 (if m < 0 \<and> m + 1 / 2 \<in> \<int> then round_half_away m + 1 else round_half_away m)) \<and>
            (\<forall>m. h = Finite m \<longrightarrow>
               ds_humidity s = Finite (of_int \<lfloor>m + 1 / 2\<rfloor>) \<and>
               \<lfloor>m + 1 / 2\<rfloor> =
                 (if m < 0 \<and> m + 1 / 2 \<in> \<int> then round_half_away m + 1 else round_half_away m)) \<and>
            (\<forall>m. w = Finite m \<and> \<bar>m\<bar> < 10 ^ 21 \<longrightarrow> windSpeed s = Decimal (one_decimal m))"
proof -
  note v = forecast_values [OF assms]
  have t: "temperature s = Finite (of_int \<lfloor>m + 1 / 2\<rfloor>)"
    if "double_mean (map main_temp (bucket f items (date s))) = Finite m" for m
    using v(2) that by simp
  have h: "ds_humidity s = Finite (of_int \<lfloor>m + 1 / 2\<rfloor>)"
    if "double_mean (map main_humidity (bucket f items (date s))) = Finite m" for m
    using v(3) that by simp
  have w: "windSpeed s = Decimal (one_decimal m)"
    if "double_mean (map wind_speed (bucket f items (date s))) = Finite m" and "\<bar>m\<bar> < 10 ^ 21" for m
    using v(4) that toFixed_one_decimal by metis
  show ?thesis
    unfolding Let_def using v t h w round_tie_up_round_half_away by blast
qed

text \<open>
  The example of the specification: temperatures 10, 20, 21, humidities 40, 50, 51 and
  wind speeds 1.0, 2.0, 2.2 of one day give 17, 47 and \<open>1.7\<close>.
\<close>

theorem forecast_summary_rounding_witness:
  "process_forecast example_toLocaleDateString example_day =
     Inr [\<lparr>date = ''1/1/1970'', temperature = Finite 17, ds_humidity = Finite 47,
           windSpeed = Decimal ''1.7'', ds_description = ''clear sky'', ds_icon = ''01d''\<rparr>] \<and>
   bucket example_toLocaleDateString example_day ''1/1/1970'' = example_day \<and>
   Finite 17 = Math_round (double_mean [10, 20, 21]) \<and>
   Finite 47 = Math_round (double_mean [40, 50, 51]) \<and>
   Decimal ''1.7'' = toFixed (double_mean [1, 2, 22 / 10]) 1 \<and>
   double_mean [10, 20, 21] = Finite 17 \<and>
   double_mean [40, 50, 51] = Finite 47 \<and>
   double_mean [1, 2, 22 / 10] = Finite (1951559838527215 / 1125899906842624)"
proof -
  let ?s = "\<lparr>date = ''1/1/1970'', temperature = Finite 17, ds_humidity = Finite 47,
           windSpeed = Decimal ''1.7'', ds_description = ''clear sky'', ds_icon = ''01d''\<rparr>"
  have run: "process_forecast example_toLocaleDateString example_day = Inr [?s]"
    by code_simp
  have b: "bucket example_toLocaleDateString example_day ''1/1/1970'' = example_day"
    by code_simp
  have m: "map main_temp example_day = [10, 20, 21]" "map main_humidity example_day = [40, 50, 51]"
    "map wind_speed example_day = [1, 2, 22 / 10]"
    by (simp_all add: example_day_def example_item_def)
  have t: "double_mean [10, 20, 21] = Finite 17" by code_simp
  have h: "double_mean [40, 50, 51] = Finite 47" by code_simp
  have w: "double_mean [1, 2, 22 / 10] = Finite (1951559838527215 / 1125899906842624)"
    by code_simp
  have "?s \<in> set [?s]" by simp
  note th = forecast_summary_rounding [OF run this, unfolded Let_def]
  have d: "date ?s = ''1/1/1970''" by simp
  from th have "temperature ?s =
      Math_round (double_mean (map main_temp (bucket example_toLocaleDateString example_day (date ?s))))"
    by (elim conjE)
  then have t': "Finite 17 = Math_round (double_mean [10, 20, 21])"
    unfolding d b m by simp
  from th have "ds_humidity ?s =
      Math_round (double_mean (map main_humidity (bucket example_toLocaleDateString example_day (date ?s))))"
    by (elim conjE)
  then have h': "Finite 47 = Math_round (double_mean [40, 50, 51])"
    unfolding d b m by simp
  from th have "windSpeed ?s =
      toFixed (double_mean (map wind_speed (bucket example_toLocaleDateString example_day (date ?s)))) 1"
    by (elim conjE)
  then have w': "Decimal ''1.7'' = toFixed (double_mean [1, 2, 22 / 10]) 1"
    unfolding d b m by simp
  show ?thesis
    by (intro conjI run b t' h' w' t h w)
qed

text \<open>
  The claim as worded (a tie rounds half away from zero) fails on a negative tie: two
  samples of one day with temperatures -2 and -3 have the mean -5/2, in double arithmetic
  as in exact arithmetic, which rounds half away from zero to -3, and the emitted
  temperature is -2.
\<close>

theorem negative_tie_counterexample:
  "process_forecast example_toLocaleDateString
     [example_item 0 (- 2) 40 1, example_item 10800 (- 3) 50 2] =
     Inr [\<lparr>date = ''1/1/1970'', temperature = Finite (- 2), ds_humidity = Finite 45,
           windSpeed = Decimal ''1.5'', ds_description = ''clear sky'', ds_icon = ''01d''\<rparr>] \<and>
   double_mean [- 2, - 3] = Finite (- 5 / 2) \<and>
   mean [- 2, - 3] = - 5 / 2 \<and> round_half_away (- 5 / 2) = - 3"
  by code_simp

text \<open>
  The mean of the code is the mean of double arithmetic, not the exact one. The decimal
  temperatures 3.7, 17.5, 5.35 and 3.45 have the exact mean 7.5, which would round to 8;
  their doubles add up to a little less than 30, and the emitted temperature is 7. The
  wind speeds 0.3 and 0.4 have the exact mean 0.35; the double mean lies just below it and
  is written \<open>0.3\<close>.
\<close>

lemma double_mean_is_not_exact_mean:
  "double_mean [37 / 10, 35 / 2, 107 / 20, 69 / 20] = Finite (8444249301319679 / 1125899906842624) \<and>
   Math_round (double_mean [37 / 10, 35 / 2, 107 / 20, 69 / 20]) = Finite 7 \<and>
   mean [37 / 10, 35 / 2, 107 / 20, 69 / 20] = 15 / 2 \<and>
   toFixed (double_mean [3 / 10, 2 / 5]) 1 = Decimal ''0.3'' \<and>
   mean [3 / 10, 2 / 5] = 7 / 20"
  by code_simp

section \<open>Order and number of the daily summaries\<close>

text \<open>
  Claim C2. For every input sequence of samples (each with its weather condition, and
  with dates as the host renders them) the aggregator emits one summary per date bucket,
  in the order in which the date strings were first encountered in the input, cut to the
  first 7: their number is the smaller of 7 and the number of distinct dates.
\<close>

theorem forecast_first_encountered_order:
  assumes "\<forall>i\<in>set items. weather i \<noteq> [] \<and> date_key (f (dt i))"
  shows "\<exists>out. process_forecast f items = Inr out \<and>
           map date out = take 7 (first_encountered (map (\<lambda>i. f (dt i)) items)) \<and>
           length out = min 7 (card ((\<lambda>i. f (dt i)) ` set items))"
  using assms by (rule process_forecast_order)

text \<open>
  Twelve samples on ten distinct days, not in chronological order, give exactly seven
  summaries, in the order of first encounter.
\<close>

theorem forecast_first_encountered_order_witness:
  "\<exists>out. process_forecast example_toLocaleDateString example_ten_days = Inr out \<and>
     map date out =
       [''5/1/1970'', ''3/1/1970'', ''10/1/1970'', ''1/1/1970'', ''8/1/1970'', ''2/1/1970'',
        ''9/1/1970''] \<and>
     length out = 7 \<and> card ((\<lambda>i. example_toLocaleDateString (dt i)) ` set example_ten_days) = 10"
proof -
  have wf: "\<forall>i\<in>set example_ten_days. weather i \<noteq> [] \<and> date_key (example_toLocaleDateString (dt i))"
    by code_simp
  have ks: "take 7 (first_encountered (map (\<lambda>i. example_toLocaleDateString (dt i)) example_ten_days)) =
      [''5/1/1970'', ''3/1/1970'', ''10/1/1970'', ''1/1/1970'', ''8/1/1970'', ''2/1/1970'',
        ''9/1/1970'']"
    by code_simp
  have c: "card ((\<lambda>i. example_toLocaleDateString (dt i)) ` set example_ten_days) = 10"
    by code_simp
  from forecast_first_encountered_order [OF wf] show ?thesis
    unfolding ks c by simp
qed

section \<open>The cache and the history under GET /api/weather/:city\<close>

lemma find_by_city:
  "distinct (map wc_city es) \<Longrightarrow> e \<in> set es \<Longrightarrow>
   find (\<lambda>x. wc_city x = wc_city e \<and> P x) es = (if P e then Some e else None)"
  by (induction es) (auto simp: find_None_iff image_iff)

lemma find_no_city: "k \<notin> wc_city ` set es \<Longrightarrow> find (\<lambda>x. wc_city x = k \<and> P x) es = None"
  by (auto simp: find_None_iff)

lemma map_city_upsert_old:
  "wc_city e \<in> wc_city ` set es \<Longrightarrow> map wc_city (upsert e es) = map wc_city es"
  by (induction es) force+

lemma map_city_upsert_new:
  "wc_city e \<notin> wc_city ` set es \<Longrightarrow> map wc_city (upsert e es) = map wc_city es @ [wc_city e]"
  by (induction es) auto

lemma distinct_upsert:
  "distinct (map wc_city es) \<Longrightarrow> distinct (map wc_city (upsert e es))"
  by (cases "wc_city e \<in> wc_city ` set es") (simp_all add: map_city_upsert_old map_city_upsert_new)

lemma weather_try_hit:
  "WeatherCache_findOne env db (String_toLowerCase env c) (now_find env - 10 * 60 * 1000) = Inr (Some cached) \<Longrightarrow>
   get_weather env db c = (Response 200 (WeatherJson (wc_data cached)), db)"
  by (simp add: get_weather_def weather_try_def)

lemma weather_miss_response:
  assumes "WeatherCache_findOne env db (String_toLowerCase env c) (now_find env - 10 * 60 * 1000) = Inr None"
  shows "fst (get_weather env db c) =
     (case axios_weather env c of
        Inl e \<Rightarrow> Response 404 (MessageJson ''City not found'')
      | Inr d \<Rightarrow>
          if db_fails env FindOneAndUpdate \<or> name d = None \<or> name d = Some [] \<or> db_fails env Create
          then Response 404 (MessageJson ''City not found'')
          else Response 200 (WeatherJson d))"
  using assms
  by (auto simp: get_weather_def weather_try_def WeatherCache_findOneAndUpdate_def
        SearchHistory_create_def split: sum.splits option.splits if_splits)

lemma weather_history:
  "SearchHistory (snd (get_weather env db c)) =
     (if \<exists>d. fetched_and_stored env db c d
      then SearchHistory db @
             [\<lparr>sh_city = the (name (projr (axios_weather env c))), sh_searchedAt = now_create env,
               sh_userId = ''default''\<rparr>]
      else SearchHistory db)"
  by (auto simp: get_weather_def weather_try_def WeatherCache_findOneAndUpdate_def
        WeatherCache_findOne_def fetched_and_stored_def
        SearchHistory_create_def split: sum.splits option.splits if_splits)

lemma weather_failure_keeps_db:
  "axios_weather env c = Inl e \<Longrightarrow> snd (get_weather env db c) = db"
  by (auto simp: get_weather_def weather_try_def split: sum.splits option.splits)

lemma weather_cached_cities_kept:
  assumes "String_toLowerCase env c \<in> wc_city ` set (WeatherCache db)"
  shows "map wc_city (WeatherCache (snd (get_weather env db c))) = map wc_city (WeatherCache db)"
proof -
  have "map wc_city (upsert \<lparr>wc_city = String_toLowerCase env c, wc_data = d, wc_cachedAt = t\<rparr> (WeatherCache db)) =
        map wc_city (WeatherCache db)" for d t
    using assms by (simp add: map_city_upsert_old)
  then show ?thesis
    by (auto simp: get_weather_def weather_try_def WeatherCache_findOneAndUpdate_def
          SearchHistory_create_def split: sum.splits option.splits if_splits)
qed

lemma weather_miss_any_store:
  assumes "WeatherCache_findOne env db (String_toLowerCase env c) (now_find env - 10 * 60 * 1000) = Inr None"
    and "WeatherCache_findOne env db' (String_toLowerCase env c) (now_find env - 10 * 60 * 1000) = Inr None"
  shows "fst (get_weather env db c) = fst (get_weather env db' c)"
  by (simp add: weather_miss_response [OF assms(1)] weather_miss_response [OF assms(2)])

text \<open>The unique index on \<^verbatim>\<open>city\<close>: no request gives a city a second cache entry.\<close>

lemma serve_cases:
  "serve statements callbacks env db req = callbacks env db req \<or>
   snd (serve statements callbacks env db req) = db"
  by (auto simp: serve_def split: sum.splits)

lemma cache_unique_index_kept:
  assumes "distinct (map wc_city (WeatherCache db))"
  shows "distinct (map wc_city (WeatherCache (snd (server_js env db req))))"
    and "distinct (map wc_city (WeatherCache (snd (part_000 env db req))))"
proof -
  have w: "distinct (map wc_city (WeatherCache (snd (get_weather env db c))))" for c
    using assms
    by (auto simp: get_weather_def weather_try_def WeatherCache_findOneAndUpdate_def
          SearchHistory_create_def distinct_upsert split: sum.splits option.splits if_splits)
  have f: "snd (get_forecast env db c) = db" for c
    by (simp add: get_forecast_def split: sum.splits)
  have h: "snd (get_history env db) = db"
    by (simp add: get_history_def split: sum.splits)
  have d: "WeatherCache (snd (delete_history env db)) = WeatherCache db"
    by (simp add: delete_history_def SearchHistory_deleteMany_def split: sum.splits)
  have s: "distinct (map wc_city (WeatherCache (snd (server_js_callbacks env db req))))"
    using assms w f h d by (cases req) (simp_all add: server_js_callbacks_def)
  have p: "distinct (map wc_city (WeatherCache (snd (part_000_callbacks env db req))))"
    using assms w f h d by (cases req) (simp_all add: part_000_callbacks_def)
  show "distinct (map wc_city (WeatherCache (snd (server_js env db req))))"
    unfolding server_js_def
    using serve_cases [of server_js_statements server_js_callbacks env db req] s assms by auto
  show "distinct (map wc_city (WeatherCache (snd (part_000 env db req))))"
    unfolding part_000_def
    using serve_cases [of part_000_statements part_000_callbacks env db req] p assms by auto
qed

section \<open>The freshness window of the cache\<close>

text \<open>
  Claim C3, as the code has it. For a cached entry of the requested city (the unique
  index allows one per city) and every time \<open>now\<close> of the lookup, the lookup returns the
  entry exactly when \<open>now - cachedAt \<le> 10 minutes\<close>: the bound is inclusive, as the
  query says \<^verbatim>\<open>$gte\<close>. Within the window the request is answered from the entry and
  the store stays as it is. Outside the window the entry is ignored and not deleted: the
  response is the one the request would get with no entry for the city, and the city
  keeps its place in the cache.
\<close>

theorem cache_lookup_window:
  assumes "\<not> db_fails env FindOne" and "distinct (map wc_city (WeatherCache db))"
    and "e \<in> set (WeatherCache db)" and "wc_city e = String_toLowerCase env c"
  shows "WeatherCache_findOne env db (String_toLowerCase env c) (now_find env - 10 * 60 * 1000) =
           Inr (if now_find env - wc_cachedAt e \<le> 10 * 60 * 1000 then Some e else None) \<and>
         (now_find env - wc_cachedAt e \<le> 10 * 60 * 1000 \<longrightarrow>
            get_weather env db c = (Response 200 (WeatherJson (wc_data e)), db)) \<and>
         (10 * 60 * 1000 < now_find env - wc_cachedAt e \<longrightarrow>
            fst (get_weather env db c) =
              fst (get_weather env
                     (db\<lparr>WeatherCache := filter (\<lambda>x. wc_city x \<noteq> String_toLowerCase env c) (WeatherCache db)\<rparr>) c) \<and>
            map wc_city (WeatherCache (snd (get_weather env db c))) = map wc_city (WeatherCache db))"
proof -
  let ?since = "now_find env - 10 * 60 * 1000"
  have "find (\<lambda>x. wc_city x = wc_city e \<and> ?since \<le> wc_cachedAt x) (WeatherCache db) =
        (if ?since \<le> wc_cachedAt e then Some e else None)"
    using assms(2,3) by (rule find_by_city)
  then have look: "WeatherCache_findOne env db (String_toLowerCase env c) ?since =
      Inr (if now_find env - wc_cachedAt e \<le> 10 * 60 * 1000 then Some e else None)"
    using assms(1,4) by (auto simp: WeatherCache_findOne_def)
  have hit: "get_weather env db c = (Response 200 (WeatherJson (wc_data e)), db)"
    if "now_find env - wc_cachedAt e \<le> 10 * 60 * 1000"
    using look that by (simp add: weather_try_hit)
  have stale: "fst (get_weather env db c) =
      fst (get_weather env
             (db\<lparr>WeatherCache := filter (\<lambda>x. wc_city x \<noteq> String_toLowerCase env c) (WeatherCache db)\<rparr>) c)"
    if "10 * 60 * 1000 < now_find env - wc_cachedAt e"
  proof (rule weather_miss_any_store)
    show "WeatherCache_findOne env db (String_toLowerCase env c) ?since = Inr None"
      using look that by simp
    have "String_toLowerCase env c \<notin> wc_city ` set (filter (\<lambda>x. wc_city x \<noteq> String_toLowerCase env c) (WeatherCache db))"
      by auto
    then show "WeatherCache_findOne env
        (db\<lparr>WeatherCache := filter (\<lambda>x. wc_city x \<noteq> String_toLowerCase env c) (WeatherCache db)\<rparr>)
        (String_toLowerCase env c) ?since = Inr None"
      using assms(1) by (simp add: WeatherCache_findOne_def find_no_city)
  qed
  have "String_toLowerCase env c \<in> wc_city ` set (WeatherCache db)"
    using assms(3,4) by (metis imageI)
  then have kept: "map wc_city (WeatherCache (snd (get_weather env db c))) = map wc_city (WeatherCache db)"
    by (rule weather_cached_cities_kept)
  from look hit stale kept show ?thesis by blast
qed

text \<open>
  An entry cached at time 0 is returned by a lookup 9 minutes 59 seconds later and is
  absent for a lookup 10 minutes 1 second later, after which the city is still cached.
\<close>

theorem cache_lookup_window_witness:
  "WeatherCache_findOne (example_env 599000) example_db (String_toLowerCase (example_env 599000) ''Pune'') (599000 - 10 * 60 * 1000) =
     Inr (Some \<lparr>wc_city = ''pune'', wc_data = example_payload, wc_cachedAt = 0\<rparr>) \<and>
   get_weather (example_env 599000) example_db ''Pune'' =
     (Response 200 (WeatherJson example_payload), example_db) \<and>
   WeatherCache_findOne (example_env 601000) example_db (String_toLowerCase (example_env 601000) ''Pune'') (601000 - 10 * 60 * 1000) =
     Inr None \<and>
   map wc_city (WeatherCache (snd (get_weather (example_env 601000) example_db ''Pune''))) = [''pune'']"
proof -
  let ?e = "\<lparr>wc_city = ''pune'', wc_data = example_payload, wc_cachedAt = 0\<rparr>"
  have up: "\<not> db_fails (example_env t) FindOne" for t
    by (simp add: example_env_def)
  have d: "distinct (map wc_city (WeatherCache example_db))"
    by (simp add: example_db_def)
  have m: "?e \<in> set (WeatherCache example_db)"
    by (simp add: example_db_def)
  have k: "wc_city ?e = String_toLowerCase (example_env 599000) ''Pune''"
    "wc_city ?e = String_toLowerCase (example_env 601000) ''Pune''"
    by code_simp+
  have n: "now_find (example_env t) = t" for t
    by (simp add: example_env_def)
  have c: "map wc_city (WeatherCache example_db) = [''pune'']"
    by (simp add: example_db_def)
  from cache_lookup_window [OF up d m k(1)] cache_lookup_window [OF up d m k(2)]
  show ?thesis
    unfolding n c by simp
qed

text \<open>
  The claim as worded (returned exactly when \<open>now - cachedAt < 10 minutes\<close>) fails at
  exactly 10 minutes: the entry is returned, and it is not fresh in the claim's sense.
\<close>

theorem cache_boundary_counterexample:
  "WeatherCache_findOne (example_env 600000) example_db (String_toLowerCase (example_env 600000) ''Pune'')
       (now_find (example_env 600000) - 10 * 60 * 1000) =
     Inr (Some \<lparr>wc_city = ''pune'', wc_data = example_payload, wc_cachedAt = 0\<rparr>) \<and>
   \<not> spec_fresh (now_find (example_env 600000))
       \<lparr>wc_city = ''pune'', wc_data = example_payload, wc_cachedAt = 0\<rparr>"
  by code_simp

section \<open>A failed write after a successful fetch\<close>

text \<open>
  Claim C5, as the code has it. Both writes are awaited inside the \<^verbatim>\<open>try\<close> block, before
  the response is sent. So when a request misses the cache and the provider fetch
  succeeds, the payload is returned with status 200 exactly when the cache write and the
  history write both succeed; when either fails, the answer is 404 with the message
  \<open>City not found\<close>.
\<close>

theorem write_failure_is_not_found:
  assumes "WeatherCache_findOne env db (String_toLowerCase env c) (now_find env - 10 * 60 * 1000) = Inr None"
    and "axios_weather env c = Inr d"
  shows "fst (get_weather env db c) =
     (if db_fails env FindOneAndUpdate \<or> name d = None \<or> name d = Some [] \<or> db_fails env Create
      then Response 404 (MessageJson ''City not found'')
      else Response 200 (WeatherJson d))"
  using weather_miss_response [OF assms(1)] assms(2) by simp

text \<open>With both writes going through the payload is returned; with a failing cache write it is not.\<close>

theorem write_failure_is_not_found_witness:
  "fst (get_weather (example_env 700000) example_db ''Pune'') = Response 200 (WeatherJson example_payload) \<and>
   fst (get_weather ((example_env 700000)\<lparr>db_fails := \<lambda>op. op = FindOneAndUpdate\<rparr>) example_db ''Pune'') =
     Response 404 (MessageJson ''City not found'')"
proof -
  let ?ok = "example_env 700000"
  let ?bad = "(example_env 700000)\<lparr>db_fails := \<lambda>op. op = FindOneAndUpdate\<rparr>"
  have m1: "WeatherCache_findOne ?ok example_db (String_toLowerCase ?ok ''Pune'') (now_find ?ok - 10 * 60 * 1000) = Inr None"
    by code_simp
  have m2: "WeatherCache_findOne ?bad example_db (String_toLowerCase ?bad ''Pune'') (now_find ?bad - 10 * 60 * 1000) = Inr None"
    by code_simp
  have f1: "axios_weather ?ok ''Pune'' = Inr example_payload" by code_simp
  have f2: "axios_weather ?bad ''Pune'' = Inr example_payload" by code_simp
  from write_failure_is_not_found [OF m1 f1] write_failure_is_not_found [OF m2 f2]
  show ?thesis
    by (simp add: example_env_def example_payload_def)
qed

text \<open>
  The claim as worded (a failed write does not keep the payload from the client) fails
  when the history write fails: the provider has answered, the cache has been written,
  and the client gets 404.
\<close>

theorem history_write_failure_counterexample:
  "axios_weather ((example_env 700000)\<lparr>db_fails := \<lambda>op. op = Create\<rparr>) ''Pune'' = Inr example_payload \<and>
   get_weather ((example_env 700000)\<lparr>db_fails := \<lambda>op. op = Create\<rparr>) example_db ''Pune'' =
     (Response 404 (MessageJson ''City not found''),
      example_db\<lparr>WeatherCache := [\<lparr>wc_city = ''pune'', wc_data = example_payload, wc_cachedAt = 700000\<rparr>]\<rparr>)"
  by code_simp

section \<open>When the history grows\<close>

text \<open>
  Claim C8, as the code has it. A request answered from a fresh cache entry appends no
  history record and leaves the whole store, the cache entry included, as it was. A
  request appends exactly one record (the provider's name of the city, at the time of
  the write) when it misses the cache, the provider fetch succeeds and both writes go
  through; every other request leaves the history as it was.
\<close>

theorem history_append_per_stored_fetch:
  "(\<forall>cached. WeatherCache_findOne env db (String_toLowerCase env c) (now_find env - 10 * 60 * 1000) = Inr (Some cached) \<longrightarrow>
      get_weather env db c = (Response 200 (WeatherJson (wc_data cached)), db)) \<and>
   (\<forall>d. fetched_and_stored env db c d \<longrightarrow>
      fst (get_weather env db c) = Response 200 (WeatherJson d) \<and>
      SearchHistory (snd (get_weather env db c)) =
        SearchHistory db @
          [\<lparr>sh_city = the (name d), sh_searchedAt = now_create env, sh_userId = ''default''\<rparr>]) \<and>
   ((\<nexists>d. fetched_and_stored env db c d) \<longrightarrow>
      SearchHistory (snd (get_weather env db c)) = SearchHistory db)"
proof (intro conjI allI impI)
  fix cached
  assume "WeatherCache_findOne env db (String_toLowerCase env c) (now_find env - 10 * 60 * 1000) = Inr (Some cached)"
  then show "get_weather env db c = (Response 200 (WeatherJson (wc_data cached)), db)"
    by (rule weather_try_hit)
next
  fix d assume fs: "fetched_and_stored env db c d"
  then show "fst (get_weather env db c) = Response 200 (WeatherJson d)"
    using weather_miss_response [of env db c] by (simp add: fetched_and_stored_def)
next
  fix d assume fs: "fetched_and_stored env db c d"
  then have "projr (axios_weather env c) = d" by (simp add: fetched_and_stored_def)
  with fs show "SearchHistory (snd (get_weather env db c)) =
        SearchHistory db @
          [\<lparr>sh_city = the (name d), sh_searchedAt = now_create env, sh_userId = ''default''\<rparr>]"
    using weather_history [of env db c] by auto
next
  assume "\<nexists>d. fetched_and_stored env db c d"
  then show "SearchHistory (snd (get_weather env db c)) = SearchHistory db"
    using weather_history [of env db c] by simp
qed

text \<open>A cache hit, a stored fetch, and a fetch that the provider refuses.\<close>

theorem history_append_per_stored_fetch_witness:
  "get_weather (example_env 1000) example_db ''Pune'' =
     (Response 200 (WeatherJson example_payload), example_db) \<and>
   fetched_and_stored (example_env 700000) example_db ''Pune'' example_payload \<and>
   SearchHistory (snd (get_weather (example_env 700000) example_db ''Pune'')) =
     SearchHistory example_db @ [\<lparr>sh_city = ''Pune'', sh_searchedAt = 700000, sh_userId = ''default''\<rparr>] \<and>
   SearchHistory (snd (get_weather (example_env 700000) example_db ''Agra'')) = SearchHistory example_db"
proof -
  let ?e = "\<lparr>wc_city = ''pune'', wc_data = example_payload, wc_cachedAt = 0\<rparr>"
  have hit: "WeatherCache_findOne (example_env 1000) example_db (String_toLowerCase (example_env 1000) ''Pune'')
      (now_find (example_env 1000) - 10 * 60 * 1000) = Inr (Some ?e)"
    by code_simp
  have fs: "fetched_and_stored (example_env 700000) example_db ''Pune'' example_payload"
    by code_simp
  have no: "\<nexists>d. fetched_and_stored (example_env 700000) example_db ''Agra'' d"
  proof -
    have "axios_weather (example_env 700000) ''Agra'' = Inl AxiosError" by code_simp
    then show ?thesis by (simp add: fetched_and_stored_def)
  qed
  have nm: "the (name example_payload) = ''Pune''" "now_create (example_env 700000) = 700000"
    by (simp_all add: example_payload_def example_env_def)
  from history_append_per_stored_fetch [of "example_env 1000" example_db "''Pune''"] hit
  have a: "get_weather (example_env 1000) example_db ''Pune'' =
     (Response 200 (WeatherJson example_payload), example_db)"
    by auto
  from history_append_per_stored_fetch [of "example_env 700000" example_db "''Pune''"] fs
  have b: "SearchHistory (snd (get_weather (example_env 700000) example_db ''Pune'')) =
     SearchHistory example_db @ [\<lparr>sh_city = ''Pune'', sh_searchedAt = 700000, sh_userId = ''default''\<rparr>]"
    by (simp add: nm)
  from history_append_per_stored_fetch [of "example_env 700000" example_db "''Agra''"] no
  have c: "SearchHistory (snd (get_weather (example_env 700000) example_db ''Agra'')) = SearchHistory example_db"
    by blast
  from a fs b c show ?thesis by blast
qed

text \<open>
  The claim as worded (one record per successful provider fetch) fails when the cache
  write fails: the provider fetch has succeeded and no record is appended.
\<close>

theorem fetch_without_history_counterexample:
  "WeatherCache_findOne ((example_env 700000)\<lparr>db_fails := \<lambda>op. op = FindOneAndUpdate\<rparr>) example_db
       (String_toLowerCase (example_env 700000) ''Pune'') (700000 - 10 * 60 * 1000) = Inr None \<and>
   axios_weather ((example_env 700000)\<lparr>db_fails := \<lambda>op. op = FindOneAndUpdate\<rparr>) ''Pune'' =
     Inr example_payload \<and>
   get_weather ((example_env 700000)\<lparr>db_fails := \<lambda>op. op = FindOneAndUpdate\<rparr>) example_db ''Pune'' =
     (Response 404 (MessageJson ''City not found''), example_db)"
  by code_simp

section \<open>The recent history without duplicates\<close>

lemma forEach_unique_keep_first:
  "forEach_unique env seen acc xs =
   acc @ keep_first (\<lambda>i. String_toLowerCase env (city i))
           (filter (\<lambda>i. String_toLowerCase env (city i) \<notin> seen) xs)"
proof (induction xs arbitrary: seen acc)
  case Nil
  then show ?case by simp
next
  case (Cons x xs)
  have "filter (\<lambda>i. String_toLowerCase env (city i) \<notin> insert (String_toLowerCase env (city x)) seen) xs =
        filter (\<lambda>y. String_toLowerCase env (city y) \<noteq> String_toLowerCase env (city x))
          (filter (\<lambda>i. String_toLowerCase env (city i) \<notin> seen) xs)"
    by (auto intro: filter_cong)
  with Cons show ?case by simp
qed

lemma set_keep_first: "set (keep_first key xs) \<subseteq> set xs"
  by (induction key xs rule: keep_first.induct) auto

lemma keys_keep_first: "key ` set (keep_first key xs) = key ` set xs"
  by (induction key xs rule: keep_first.induct) auto

lemma distinct_keep_first: "distinct (map key (keep_first key xs))"
proof (induction key xs rule: keep_first.induct)
  case (1 key)
  then show ?case by simp
next
  case (2 key x xs)
  have "key x \<notin> key ` set (keep_first key (filter (\<lambda>y. key y \<noteq> key x) xs))"
    unfolding keys_keep_first by auto
  with 2 show ?case by simp
qed

lemma length_keep_first: "length (keep_first key xs) \<le> length xs"
proof (induction key xs rule: keep_first.induct)
  case (1 key)
  then show ?case by simp
next
  case (2 key x xs)
  have "length (filter (\<lambda>y. key y \<noteq> key x) xs) \<le> length xs" by simp
  with 2 have "length (keep_first key (filter (\<lambda>y. key y \<noteq> key x) xs)) \<le> length xs"
    by (rule le_trans)
  then show ?case by simp
qed

lemma sorted_wrt_keep_first: "sorted_wrt P xs \<Longrightarrow> sorted_wrt P (keep_first key xs)"
proof (induction key xs rule: keep_first.induct)
  case (1 key)
  then show ?case by simp
next
  case (2 key x xs)
  from 2 have "sorted_wrt P (keep_first key (filter (\<lambda>y. key y \<noteq> key x) xs))"
    by (simp add: sorted_wrt_filter)
  moreover have "\<forall>y\<in>set (keep_first key (filter (\<lambda>y. key y \<noteq> key x) xs)). P x y"
    using 2(2) set_keep_first [of key "filter (\<lambda>y. key y \<noteq> key x) xs"] by auto
  ultimately show ?case by simp
qed

lemma first_encountered_keep_first: "first_encountered xs = keep_first (\<lambda>x. x) xs"
  by (induction xs rule: first_encountered.induct) auto

lemma sorted_desc_sort_key:
  "sorted_wrt (\<lambda>a b. sh_searchedAt b \<le> sh_searchedAt a) (sort_key (\<lambda>r. - sh_searchedAt r) rs)"
proof -
  have "sorted (map (\<lambda>r. - sh_searchedAt r) (sort_key (\<lambda>r. - sh_searchedAt r) rs))"
    by (rule sorted_sort_key)
  then show ?thesis by (simp add: sorted_wrt_map)
qed

text \<open>
  Claim C4. Listing the history sorts all stored records by \<open>searchedAt\<close> descending (the
  sorted sequence holds the same records, each as often as the store) and cuts the
  sequence to its first 10, the most recent; this limited sequence is then gone through
  in order, and of the records that share a lowercased city name only the first is kept.
  The result has at most 10 entries, no lowercased city twice, every city of the limited
  sequence once, and is still ordered from the most recent on.
\<close>

theorem history_recent_unique:
  assumes "\<not> db_fails env Find"
  shows "\<exists>sorted recent out.
           mset sorted = mset (SearchHistory db) \<and>
           sorted_wrt (\<lambda>a b. sh_searchedAt b \<le> sh_searchedAt a) sorted \<and>
           recent = map select_city_searchedAt (take 10 sorted) \<and>
           out = keep_first (\<lambda>i. String_toLowerCase env (city i)) recent \<and>
           get_history env db = (Response 200 (HistoryJson out), db) \<and>
           length out \<le> 10 \<and>
           distinct (map (\<lambda>i. String_toLowerCase env (city i)) out) \<and>
           (\<lambda>i. String_toLowerCase env (city i)) ` set out = (\<lambda>i. String_toLowerCase env (city i)) ` set recent \<and>
           sorted_wrt (\<lambda>a b. searchedAt b \<le> searchedAt a) out"
proof -
  define sorted where "sorted = sort_key (\<lambda>r. - sh_searchedAt r) (SearchHistory db)"
  define recent where "recent = map select_city_searchedAt (take 10 sorted)"
  define out where "out = keep_first (\<lambda>i. String_toLowerCase env (city i)) recent"
  have s: "sorted_wrt (\<lambda>a b. sh_searchedAt b \<le> sh_searchedAt a) sorted"
    unfolding sorted_def by (rule sorted_desc_sort_key)
  then have "sorted_wrt (\<lambda>a b. sh_searchedAt b \<le> sh_searchedAt a) (take 10 sorted)"
    by (rule sorted_wrt_take)
  then have "sorted_wrt (\<lambda>a b. searchedAt b \<le> searchedAt a) recent"
    by (simp add: recent_def sorted_wrt_map select_city_searchedAt_def)
  then have so: "sorted_wrt (\<lambda>a b. searchedAt b \<le> searchedAt a) out"
    unfolding out_def by (rule sorted_wrt_keep_first)
  have "length out \<le> length recent" unfolding out_def by (rule length_keep_first)
  then have len: "length out \<le> 10" by (simp add: recent_def)
  have g: "get_history env db = (Response 200 (HistoryJson out), db)"
    using assms
    by (simp add: get_history_def SearchHistory_find_recent_def forEach_unique_keep_first
          out_def recent_def sorted_def)
  have d: "distinct (map (\<lambda>i. String_toLowerCase env (city i)) out)"
    unfolding out_def by (rule distinct_keep_first)
  have k: "(\<lambda>i. String_toLowerCase env (city i)) ` set out = (\<lambda>i. String_toLowerCase env (city i)) ` set recent"
    unfolding out_def by (rule keys_keep_first)
  have p: "mset sorted = mset (SearchHistory db)"
    by (simp add: sorted_def)
  from p s so len g d k show ?thesis
    using recent_def out_def by blast
qed

text \<open>
  The example of the specification: Pune, Mumbai, Pune, Delhi (the most recent first)
  give Pune, Mumbai, Delhi.
\<close>

theorem history_recent_unique_witness:
  "get_history (example_env 0) example_db =
     (Response 200 (HistoryJson
        [\<lparr>city = ''Pune'', searchedAt = 4000\<rparr>, \<lparr>city = ''Mumbai'', searchedAt = 3000\<rparr>,
         \<lparr>city = ''Delhi'', searchedAt = 1000\<rparr>]), example_db) \<and>
   keep_first (\<lambda>i. String_toLowerCase (example_env 0) (city i))
     [\<lparr>city = ''Pune'', searchedAt = 4000\<rparr>, \<lparr>city = ''Mumbai'', searchedAt = 3000\<rparr>,
      \<lparr>city = ''Pune'', searchedAt = 2000\<rparr>, \<lparr>city = ''Delhi'', searchedAt = 1000\<rparr>] =
     [\<lparr>city = ''Pune'', searchedAt = 4000\<rparr>, \<lparr>city = ''Mumbai'', searchedAt = 3000\<rparr>,
      \<lparr>city = ''Delhi'', searchedAt = 1000\<rparr>]"
proof -
  have up: "\<not> db_fails (example_env 0) Find" by (simp add: example_env_def)
  have k: "keep_first (\<lambda>i. String_toLowerCase (example_env 0) (city i))
     [\<lparr>city = ''Pune'', searchedAt = 4000\<rparr>, \<lparr>city = ''Mumbai'', searchedAt = 3000\<rparr>,
      \<lparr>city = ''Pune'', searchedAt = 2000\<rparr>, \<lparr>city = ''Delhi'', searchedAt = 1000\<rparr>] =
     [\<lparr>city = ''Pune'', searchedAt = 4000\<rparr>, \<lparr>city = ''Mumbai'', searchedAt = 3000\<rparr>,
      \<lparr>city = ''Delhi'', searchedAt = 1000\<rparr>]"
    by code_simp
  have g: "get_history (example_env 0) example_db =
     (Response 200 (HistoryJson
        [\<lparr>city = ''Pune'', searchedAt = 4000\<rparr>, \<lparr>city = ''Mumbai'', searchedAt = 3000\<rparr>,
         \<lparr>city = ''Delhi'', searchedAt = 1000\<rparr>]), example_db)"
    by code_simp
  from history_recent_unique [OF up, of example_db] g k show ?thesis by blast
qed

section \<open>City autocomplete\<close>

lemma startsWith_iff: "startsWith s p \<longleftrightarrow> (\<exists>b. s = p @ b)"
  by (induction s p rule: startsWith.induct) auto

lemma includes_str_iff: "includes_str s p \<longleftrightarrow> is_substring p s"
proof (induction s)
  case Nil
  then show ?case by (auto simp: is_substring_def)
next
  case (Cons c cs)
  have "is_substring p (c # cs) \<longleftrightarrow> (\<exists>b. c # cs = p @ b) \<or> is_substring p cs"
    unfolding is_substring_def
  proof
    assume "\<exists>a b. c # cs = a @ p @ b"
    then obtain a b where ab: "c # cs = a @ p @ b" by blast
    show "(\<exists>b. c # cs = p @ b) \<or> (\<exists>a b. cs = a @ p @ b)"
    proof (cases a)
      case Nil
      with ab show ?thesis by auto
    next
      case (Cons x a')
      with ab have "cs = a' @ p @ b" by simp
      then show ?thesis by blast
    qed
  next
    assume "(\<exists>b. c # cs = p @ b) \<or> (\<exists>a b. cs = a @ p @ b)"
    then show "\<exists>a b. c # cs = a @ p @ b"
    proof
      assume "\<exists>b. c # cs = p @ b"
      then obtain b where "c # cs = [] @ p @ b" by auto
      then show ?thesis by blast
    next
      assume "\<exists>a b. cs = a @ p @ b"
      then obtain a b where "c # cs = (c # a) @ p @ b" by auto
      then show ?thesis by blast
    qed
  qed
  with Cons show ?case by (simp add: startsWith_iff)
qed

lemma filter_cities_spec:
  "filter_cities env cs q =
   take 5 (filter (\<lambda>city. is_substring (String_toLowerCase env q) (String_toLowerCase env city)) cs)"
  by (simp add: filter_cities_def includes_str_iff)

lemma includes_empty: "includes_str s []"
  by (cases s) simp_all

text \<open>
  Claim C7, as the code has it. For every query string the autocomplete answers 200 with
  at most 5 city names: the first 5, in the order of the static list, of the names that
  contain the query as a substring when both are lowercased. The query is not trimmed:
  the empty query is contained in every name and gives the first 5 entries of the list,
  while a query of white space is matched like any other substring.
\<close>

theorem city_autocomplete:
  "cities_search env cs (QString q) = Response 200 (CitiesJson (filter_cities env cs q)) \<and>
   filter_cities env cs q =
     take 5 (filter (\<lambda>city. is_substring (String_toLowerCase env q) (String_toLowerCase env city)) cs) \<and>
   length (filter_cities env cs q) \<le> 5 \<and>
   (\<forall>city\<in>set (filter_cities env cs q).
      city \<in> set cs \<and> is_substring (String_toLowerCase env q) (String_toLowerCase env city)) \<and>
   filter_cities env cs [] = take 5 cs \<and>
   filter_cities env server_indianCities [] =
     [''Mumbai'', ''Delhi'', ''Bangalore'', ''Hyderabad'', ''Ahmedabad''] \<and>
   filter_cities env part_000_indianCities [] =
     [''Mumbai'', ''Delhi'', ''Bangalore'', ''Hyderabad'', ''Ahmedabad'']"
proof -
  have a: "cities_search env cs (QString q) = Response 200 (CitiesJson (filter_cities env cs q))"
    by (simp add: cities_search_def)
  have b: "length (filter_cities env cs q) \<le> 5" by (simp add: filter_cities_def)
  have c: "\<forall>city\<in>set (filter_cities env cs q).
      city \<in> set cs \<and> is_substring (String_toLowerCase env q) (String_toLowerCase env city)"
    unfolding filter_cities_spec by (auto dest: in_set_takeD)
  have d: "filter_cities env xs [] = take 5 xs" for xs
    by (simp add: filter_cities_def String_toLowerCase_def includes_empty)
  have e: "filter_cities env server_indianCities [] =
      [''Mumbai'', ''Delhi'', ''Bangalore'', ''Hyderabad'', ''Ahmedabad'']"
    unfolding d by (simp add: server_indianCities_def)
  have f: "filter_cities env part_000_indianCities [] =
      [''Mumbai'', ''Delhi'', ''Bangalore'', ''Hyderabad'', ''Ahmedabad'']"
    unfolding d by (simp add: part_000_indianCities_def)
  show ?thesis
    by (intro conjI a filter_cities_spec b c d e f)
qed

text \<open>The query \<open>mum\<close> finds Mumbai first, and Navi Mumbai; the empty query finds the first five.\<close>

theorem city_autocomplete_witness:
  "cities_search (example_env 0) server_indianCities (QString ''mum'') =
     Response 200 (CitiesJson [''Mumbai'', ''Navi Mumbai'']) \<and>
   is_substring (String_toLowerCase (example_env 0) ''mum'') (String_toLowerCase (example_env 0) ''Mumbai'') \<and>
   is_substring (String_toLowerCase (example_env 0) ''mum'') (String_toLowerCase (example_env 0) ''Navi Mumbai'') \<and>
   filter_cities (example_env 0) server_indianCities [] =
     [''Mumbai'', ''Delhi'', ''Bangalore'', ''Hyderabad'', ''Ahmedabad'']"
proof -
  have r: "filter_cities (example_env 0) server_indianCities ''mum'' = [''Mumbai'', ''Navi Mumbai'']"
    by code_simp
  note th = city_autocomplete [of "example_env 0" server_indianCities "''mum''"]
  from th have "cities_search (example_env 0) server_indianCities (QString ''mum'') =
      Response 200 (CitiesJson (filter_cities (example_env 0) server_indianCities ''mum''))"
    by (elim conjE)
  then have a: "cities_search (example_env 0) server_indianCities (QString ''mum'') =
      Response 200 (CitiesJson [''Mumbai'', ''Navi Mumbai''])"
    unfolding r .
  from th have "\<forall>city\<in>set (filter_cities (example_env 0) server_indianCities ''mum'').
      city \<in> set server_indianCities \<and>
      is_substring (String_toLowerCase (example_env 0) ''mum'') (String_toLowerCase (example_env 0) city)"
    by (elim conjE)
  then have c: "is_substring (String_toLowerCase (example_env 0) ''mum'') (String_toLowerCase (example_env 0) ''Mumbai'')"
    "is_substring (String_toLowerCase (example_env 0) ''mum'') (String_toLowerCase (example_env 0) ''Navi Mumbai'')"
    unfolding r by simp_all
  from th have e: "filter_cities (example_env 0) server_indianCities [] =
     [''Mumbai'', ''Delhi'', ''Bangalore'', ''Hyderabad'', ''Ahmedabad'']"
    by (elim conjE)
  show ?thesis
    by (intro conjI a c e)
qed

text \<open>
  The claim as worded (a whitespace-only query gives the first 5 entries) fails for a
  single space, which only Navi Mumbai contains, and for two spaces, which no name
  contains.
\<close>

theorem whitespace_query_counterexample:
  "filter_cities (example_env 0) server_indianCities '' '' = [''Navi Mumbai''] \<and>
   filter_cities (example_env 0) part_000_indianCities '' '' = [''Navi Mumbai''] \<and>
   take 5 server_indianCities = [''Mumbai'', ''Delhi'', ''Bangalore'', ''Hyderabad'', ''Ahmedabad''] \<and>
   filter_cities (example_env 0) server_indianCities ''  '' = []"
  by code_simp

section \<open>Failures at the request boundary\<close>

text \<open>\<^verbatim>\<open>part_000\<close> loads, registers its six routes and listens: it hands every request to its callback.\<close>

lemma part_000_serves:
  "part_000 env db req = part_000_callbacks env db req"
proof -
  have "load part_000_statements fresh_app =
      Inr \<lparr>port_initialised = True,
           registered = [Weather, Forecast, HistoryGet, HistoryDelete, CitiesSearch, Health],
           listening = True\<rparr>"
    by (simp add: part_000_statements_def fresh_app_def exec_def)
  then show ?thesis
    by (cases req) (simp_all add: part_000_def serve_def route_of_def)
qed

text \<open>
  Claim C6 says that no failure escapes a handler. The autocomplete handler is the one
  async handler without a \<^verbatim>\<open>try\<close>: without the query parameter \<open>q\<close> the call
  \<^verbatim>\<open>q.toLowerCase()\<close> throws, and the TypeError leaves the handler with no response
  sent. \<^verbatim>\<open>part_000\<close> answers the request so; the callback of \<^verbatim>\<open>src/server.js\<close> is
  written the same way.
\<close>

theorem cities_search_absent_query:
  "part_000 env db (GetCitiesSearch Absent) = (Unhandled TypeError, db) \<and>
   server_js_callbacks env db (GetCitiesSearch Absent) = (Unhandled TypeError, db)"
  by (simp add: part_000_serves part_000_callbacks_def server_js_callbacks_def cities_search_def
        server_indianCities_def part_000_indianCities_def)

text \<open>
  Every other route of \<^verbatim>\<open>part_000\<close> does what the claim says: it answers 200, or 404 or
  500 with one of the fixed messages.
\<close>

lemma other_routes_respond:
  assumes "\<forall>q. req \<noteq> GetCitiesSearch q"
  shows "\<exists>st b. fst (part_000 env db req) = Response st b \<and>
           (st = 200 \<or>
            st = 404 \<and> b \<in> {MessageJson ''City not found'', MessageJson ''Forecast data not available''} \<or>
            st = 500 \<and> b \<in> {MessageJson ''Error fetching history'', MessageJson ''Error clearing history''})"
proof (cases req)
  case (GetWeather c)
  then show ?thesis
    by (auto simp: part_000_serves part_000_callbacks_def get_weather_def weather_try_def
          split: sum.splits option.splits prod.splits)
next
  case (GetForecast c)
  then show ?thesis
    by (auto simp: part_000_serves part_000_callbacks_def get_forecast_def forecast_try_def split: sum.splits)
next
  case GetHistory
  then show ?thesis
    by (auto simp: part_000_serves part_000_callbacks_def get_history_def split: sum.splits)
next
  case DeleteHistory
  then show ?thesis
    by (auto simp: part_000_serves part_000_callbacks_def delete_history_def split: sum.splits)
next
  case (GetCitiesSearch q)
  with assms show ?thesis by simp
qed (simp add: part_000_serves part_000_callbacks_def)

section \<open>The two files compared\<close>

text \<open>
  Claim C10 says that the two files answer every request alike. They do not: loading
  \<^verbatim>\<open>src/server.js\<close> stops at line 18, where \<^verbatim>\<open>app.listen(PORT, ...)\<close> reads \<^verbatim>\<open>PORT\<close>
  before the \<^verbatim>\<open>const\<close> of line 202 has run; the ReferenceError ends the load, nothing
  listens, and every request is refused. \<^verbatim>\<open>part_000\<close> declares \<^verbatim>\<open>PORT\<close> first, loads, has
  all six routes and listens: it hands every request to its callback, and answers the
  health check with 200.
\<close>

theorem server_js_load_fails:
  "load server_js_statements fresh_app = Inl ReferenceError \<and>
   server_js env db req = (Refused, db) \<and>
   load part_000_statements fresh_app =
     Inr \<lparr>port_initialised = True,
          registered = [Weather, Forecast, HistoryGet, HistoryDelete, CitiesSearch, Health],
          listening = True\<rparr> \<and>
   part_000 env db req = part_000_callbacks env db req \<and>
   part_000 env db GetHealth = (Response 200 OkJson, db)"
proof -
  have s: "load server_js_statements fresh_app = Inl ReferenceError"
    by (simp add: server_js_statements_def fresh_app_def exec_def)
  then have r: "server_js env db req = (Refused, db)"
    by (simp add: server_js_def serve_def)
  have p: "load part_000_statements fresh_app =
      Inr \<lparr>port_initialised = True,
           registered = [Weather, Forecast, HistoryGet, HistoryDelete, CitiesSearch, Health],
           listening = True\<rparr>"
    by (simp add: part_000_statements_def fresh_app_def exec_def)
  have h: "part_000 env db GetHealth = (Response 200 OkJson, db)"
    by (simp add: part_000_serves part_000_callbacks_def)
  show ?thesis
    by (intro conjI s r p part_000_serves h)
qed

text \<open>
  The callbacks themselves, as the two files write them, differ in one place only: the
  static city list of the autocomplete (102 names against 71, the shorter being the
  longer with 31 names left out). They compute alike on every other request, and on an
  autocomplete request whenever the query matches none of the 31 names that only
  \<^verbatim>\<open>src/server.js\<close> lists.
\<close>

lemma part_000_sublist:
  "part_000_indianCities = filter (\<lambda>c. c \<in> set part_000_indianCities) server_indianCities"
  by code_simp

lemma filter_lists_agree:
  assumes "\<forall>c\<in>set server_only_cities. \<not> P c"
  shows "filter P server_indianCities = filter P part_000_indianCities"
proof -
  have "filter P part_000_indianCities =
        filter P (filter (\<lambda>c. c \<in> set part_000_indianCities) server_indianCities)"
    by (rule arg_cong [OF part_000_sublist])
  also have "\<dots> = filter (\<lambda>c. c \<in> set part_000_indianCities \<and> P c) server_indianCities"
    by simp
  also have "\<dots> = filter P server_indianCities"
  proof (rule filter_cong [OF refl])
    fix c assume "c \<in> set server_indianCities"
    with assms show "(c \<in> set part_000_indianCities \<and> P c) = P c"
      by (auto simp: server_only_cities_def)
  qed
  finally show ?thesis by simp
qed

lemma callbacks_agree_except_new_cities:
  "((\<forall>q. req \<noteq> GetCitiesSearch (QString q)) \<longrightarrow>
      server_js_callbacks env db req = part_000_callbacks env db req) \<and>
   ((\<forall>c\<in>set server_only_cities. \<not> includes_str (String_toLowerCase env c) (String_toLowerCase env q)) \<longrightarrow>
      server_js_callbacks env db (GetCitiesSearch (QString q)) =
      part_000_callbacks env db (GetCitiesSearch (QString q)))"
proof (intro conjI impI)
  assume a: "\<forall>q. req \<noteq> GetCitiesSearch (QString q)"
  show "server_js_callbacks env db req = part_000_callbacks env db req"
  proof (cases req)
    case (GetCitiesSearch p)
    with a show ?thesis
      by (cases p)
        (simp_all add: server_js_callbacks_def part_000_callbacks_def cities_search_def
          server_indianCities_def part_000_indianCities_def)
  qed (simp_all add: server_js_callbacks_def part_000_callbacks_def)
next
  assume "\<forall>c\<in>set server_only_cities. \<not> includes_str (String_toLowerCase env c) (String_toLowerCase env q)"
  then have "filter_cities env server_indianCities q = filter_cities env part_000_indianCities q"
    unfolding filter_cities_def by (simp add: filter_lists_agree)
  then show "server_js_callbacks env db (GetCitiesSearch (QString q)) =
      part_000_callbacks env db (GetCitiesSearch (QString q))"
    by (simp add: server_js_callbacks_def part_000_callbacks_def cities_search_def)
qed

lemma city_lists_differ:
  "length server_indianCities = 102 \<and> length part_000_indianCities = 71 \<and>
   length server_only_cities = 31 \<and>
   filter_cities (example_env 0) server_indianCities ''pimpri'' = [''Pimpri-Chinchwad''] \<and>
   filter_cities (example_env 0) part_000_indianCities ''pimpri'' = []"
  by code_simp

section \<open>The empty forecast\<close>

text \<open>
  Claim C9. For the empty input sample sequence the forecast aggregator returns the empty
  sequence of daily summaries and raises no error; the route then answers 200 with the
  empty array and leaves the store alone.
\<close>

theorem empty_forecast:
  "process_forecast f [] = Inr [] \<and>
   get_forecast (env\<lparr>axios_forecast := \<lambda>c. Inr []\<rparr>) db c = (Response 200 (ForecastJson []), db)"
  by (simp add: process_forecast_def Object_keys_def get_forecast_def forecast_try_def)

end
